theory Spec2Isabelle
  imports Main
begin

section \<open>Data model\<close>

text \<open>
  The persisted documents of \<^verbatim>\<open>models/Broadcast.js\<close>, \<^verbatim>\<open>models/BroadcastCall.js\<close> and
  \<^verbatim>\<open>models/OptOut.js\<close>. An ObjectId is a natural number, a Date is its number of
  milliseconds (an integer), a Number that counts is a \<open>nat\<close>, any other Number an \<open>int\<close>.
  A path that a document may lack is an \<open>option\<close>. The \<^verbatim>\<open>_id\<close> of a campaign is \<open>bid\<close>,
  that of a call is \<open>cid\<close>. Every function that reads the clock takes the reading as its
  argument \<open>now\<close>.
\<close>

type_synonym objectId = nat
type_synonym date = int

datatype broadcast_status = Draft | BQueued | BInProgress | BCompleted | BCancelled

datatype call_status =
  Queued | Calling | Ringing | InProgress | Answered | Completed | Failed | Busy | NoAnswer
  | Cancelled | OptedOut

datatype dnd_status = Allowed | Blocked | Unchecked

datatype optout_source = BroadcastKeypress | Manual | DndRegistry | Api

record contact =
  phone :: string
  name :: "string option"

text \<open>
  The request data of \<^verbatim>\<open>createBroadcast\<close>: every property may be undefined.
\<close>

record voiceData =
  provider :: "string option"
  voiceId :: "string option"
  language :: "string option"

record complianceData =
  disclaimerText :: "string option"
  optOutEnabled :: "bool option"
  dndRespect :: "bool option"

record broadcastData =
  name :: "string option"
  messageTemplate :: "string option"
  voice :: "voiceData option"
  contacts :: "contact list option"
  maxConcurrent :: "int option"
  maxRetries :: "int option"
  retryDelay :: "int option"
  compliance :: "complianceData option"

text \<open>The documents.\<close>

record voice =
  provider :: string
  voiceId :: string
  language :: string

record stats =
  total :: nat
  queued :: nat
  calling :: nat
  answered :: nat
  completed :: nat
  failed :: nat
  opted_out :: nat

record compliance =
  disclaimerText :: string
  optOutEnabled :: bool
  dndRespect :: bool

record config =
  maxConcurrent :: int
  maxRetries :: int
  retryDelay :: int
  compliance :: compliance

record broadcast =
  bid :: objectId
  name :: string
  messageTemplate :: string
  voice :: voice
  contacts :: "contact list"
  status :: broadcast_status
  stats :: stats
  config :: config
  startedAt :: "date option"
  completedAt :: "date option"
  createdBy :: objectId

record metadata =
  answeredBy :: "string option"
  errorCode :: "string option"
  errorMessage :: "string option"

record call =
  cid :: objectId
  broadcast :: objectId
  contact :: contact
  audioUrl :: "string option"
  callSid :: "string option"
  status :: call_status
  attempts :: nat
  retryAfter :: "date option"
  duration :: "int option"
  startTime :: "date option"
  endTime :: "date option"
  twilioError :: "(int \<times> string) option"
  dndStatus :: dnd_status
  optedOut :: bool
  metadata :: "metadata option"

record optOut =
  phone :: string
  source :: optout_source
  optedOutAt :: date
  expiresAt :: date

text \<open>The schema defaults of \<^verbatim>\<open>broadcastSchema.config\<close>.\<close>

definition schema_default_maxConcurrent :: int where
  "schema_default_maxConcurrent = 50"

definition schema_default_maxRetries :: int where
  "schema_default_maxRetries = 2"

definition schema_default_retryDelay :: int where
  "schema_default_retryDelay = 300000"

text \<open>
  JavaScript's \<^verbatim>\<open>x || d\<close> on a Number that may be undefined: the default is taken when
  \<open>x\<close> is undefined or 0.
\<close>

definition num_or :: "int option \<Rightarrow> int \<Rightarrow> int" where
  "num_or x d = (case x of None \<Rightarrow> d | Some v \<Rightarrow> if v = 0 then d else v)"

definition str_or :: "string option \<Rightarrow> string \<Rightarrow> string" where
  "str_or x d = (case x of None \<Rightarrow> d | Some v \<Rightarrow> if v = [] then d else v)"

section \<open>Collections\<close>

text \<open>
  A collection is the list of its documents in their natural order. \<^verbatim>\<open>findById\<close> returns
  the first document with the id, \<^verbatim>\<open>save\<close> replaces the document that has the id of the
  saved one. The persistence operations themselves are taken to succeed.
\<close>

definition Broadcast_findById :: "broadcast list \<Rightarrow> objectId \<Rightarrow> broadcast option" where
  "Broadcast_findById bs i = find (\<lambda>b. bid b = i) bs"

definition Broadcast_save :: "broadcast \<Rightarrow> broadcast list \<Rightarrow> broadcast list" where
  "Broadcast_save b bs = map (\<lambda>x. if bid x = bid b then b else x) bs"

definition BroadcastCall_findById :: "call list \<Rightarrow> objectId \<Rightarrow> call option" where
  "BroadcastCall_findById cs i = find (\<lambda>c. cid c = i) cs"

definition BroadcastCall_save :: "call \<Rightarrow> call list \<Rightarrow> call list" where
  "BroadcastCall_save c cs = map (\<lambda>x. if cid x = cid c then c else x) cs"

section \<open>Instance methods of a call (models/BroadcastCall.js)\<close>

definition markCalling :: "string \<Rightarrow> date \<Rightarrow> call \<Rightarrow> call" where
  "markCalling sid now c =
     c\<lparr>callSid := Some sid, call.status := Calling, startTime := Some now,
       attempts := attempts c + 1\<rparr>"

definition markCompleted :: "int \<Rightarrow> date \<Rightarrow> call \<Rightarrow> call" where
  "markCompleted d now c =
     c\<lparr>call.status := Completed, endTime := Some now, duration := Some d\<rparr>"

text \<open>
  \<^verbatim>\<open>markFailed\<close> first writes \<^verbatim>\<open>failed\<close>, the end time and the error; then, when
  \<^verbatim>\<open>shouldRetry && this.attempts < 2\<close>, it loads the campaign and writes \<^verbatim>\<open>retryAfter\<close>
  from \<^verbatim>\<open>broadcast?.config?.retryDelay || 300000\<close> and the status \<^verbatim>\<open>queued\<close>.
\<close>

definition retryDelay_of :: "broadcast option \<Rightarrow> int" where
  "retryDelay_of bo = num_or (map_option (\<lambda>b. retryDelay (config b)) bo) 300000"

definition markFailed ::
  "int \<Rightarrow> string \<Rightarrow> bool \<Rightarrow> date \<Rightarrow> broadcast list \<Rightarrow> call \<Rightarrow> call" where
  "markFailed code msg shouldRetry now bs c =
     (let c1 = c\<lparr>call.status := Failed, endTime := Some now, twilioError := Some (code, msg)\<rparr>
      in if shouldRetry \<and> attempts c1 < 2
         then c1\<lparr>retryAfter :=
                    Some (now + retryDelay_of (Broadcast_findById bs (call.broadcast c1))),
                 call.status := Queued\<rparr>
         else c1)"

definition markOptedOut :: "date \<Rightarrow> call \<Rightarrow> call" where
  "markOptedOut now c = c\<lparr>call.status := OptedOut, optedOut := True, endTime := Some now\<rparr>"

section \<open>Instance methods of a campaign (models/Broadcast.js)\<close>

datatype stat_key = SQueued | SCalling | SAnswered | SCompleted | SFailed | SOptedOut

fun incrementStat :: "stat_key \<Rightarrow> broadcast \<Rightarrow> broadcast" where
  "incrementStat SQueued b = b\<lparr>stats := (stats b)\<lparr>queued := queued (stats b) + 1\<rparr>\<rparr>"
| "incrementStat SCalling b = b\<lparr>stats := (stats b)\<lparr>calling := calling (stats b) + 1\<rparr>\<rparr>"
| "incrementStat SAnswered b = b\<lparr>stats := (stats b)\<lparr>answered := answered (stats b) + 1\<rparr>\<rparr>"
| "incrementStat SCompleted b = b\<lparr>stats := (stats b)\<lparr>completed := completed (stats b) + 1\<rparr>\<rparr>"
| "incrementStat SFailed b = b\<lparr>stats := (stats b)\<lparr>failed := failed (stats b) + 1\<rparr>\<rparr>"
| "incrementStat SOptedOut b = b\<lparr>stats := (stats b)\<lparr>opted_out := opted_out (stats b) + 1\<rparr>\<rparr>"

definition updateStatus :: "broadcast_status \<Rightarrow> date \<Rightarrow> broadcast \<Rightarrow> broadcast" where
  "updateStatus newStatus now b =
     (let b1 = b\<lparr>broadcast.status := newStatus\<rparr>;
          b2 = (if newStatus = BInProgress \<and> startedAt b1 = None
                then b1\<lparr>startedAt := Some now\<rparr> else b1)
      in if newStatus = BCompleted \<or> newStatus = BCancelled
         then b2\<lparr>completedAt := Some now\<rparr> else b2)"

section \<open>The opt-out store (models/OptOut.js)\<close>

text \<open>
  \<^verbatim>\<open>OptOut.isOptedOut(phone)\<close>: a record for the phone with \<^verbatim>\<open>expiresAt > new Date()\<close>
  exists. The TTL index removes an expired record only when the store's sweep next runs,
  so the collection can hold records with \<open>expiresAt \<le> now\<close>.
\<close>

definition OptOut_isOptedOut :: "string \<Rightarrow> date \<Rightarrow> optOut list \<Rightarrow> bool" where
  "OptOut_isOptedOut p now os = list_ex (\<lambda>ou. optOut.phone ou = p \<and> expiresAt ou > now) os"

section \<open>Template validation (utils/messagePersonalizer.js)\<close>

text \<open>
  \<^verbatim>\<open>String.prototype.trim\<close> on a string of one-byte characters: tab, line feed, vertical
  tab, form feed, carriage return, space and no-break space are stripped from both ends.
\<close>

definition js_space :: "char \<Rightarrow> bool" where
  "js_space c = (c \<in> set [CHR 0x09, CHR 0x0A, CHR 0x0B, CHR 0x0C, CHR 0x0D, CHR 0x20, CHR 0xA0])"

definition trim :: "string \<Rightarrow> string" where
  "trim s = rev (dropWhile js_space (rev (dropWhile js_space s)))"

text \<open>
  One attempt of the pattern \<^verbatim>\<open>/{{([^}]+)}}/\<close> at the head of the string: two opening
  braces, the longest non-empty run of characters other than a closing brace, two closing
  braces. The result is the captured group and the text after the match. (A shorter run
  cannot match, since the character after it is not a closing brace.)
\<close>

fun closes :: "string \<Rightarrow> bool" where
  "closes (a # b # r) = (a = CHR ''}'' \<and> b = CHR ''}'')"
| "closes _ = False"

fun match_at :: "string \<Rightarrow> (string \<times> string) option" where
  "match_at (a # b # r) =
     (if a = CHR ''{'' \<and> b = CHR ''{''
      then (let g = takeWhile (\<lambda>c. c \<noteq> CHR ''}'') r;
                t = dropWhile (\<lambda>c. c \<noteq> CHR ''}'') r
            in if g \<noteq> [] \<and> closes t then Some (g, drop 2 t) else None)
      else None)"
| "match_at _ = None"

text \<open>
  The loop \<^verbatim>\<open>while ((match = variablePattern.exec(template)) !== null)\<close> of a global
  pattern: the search goes on after the end of the last match, and moves one character on
  where the pattern does not match.
\<close>

function exec_all :: "string \<Rightarrow> string list" where
  "exec_all [] = []"
| "exec_all (c # s) =
     (case match_at (c # s) of
        Some (g, rest) \<Rightarrow> trim g # exec_all rest
      | None \<Rightarrow> exec_all s)"
  by pat_completeness auto
termination
proof (relation "measure length")
  show "wf (measure length)" by simp
next
  fix c :: char and s x2 x y
  assume m: "match_at (c # s) = Some x2" and x: "(x, y) = x2"
  have "length y < length (c # s)"
  proof (cases s)
    case Nil
    with m show ?thesis by simp
  next
    case (Cons b r)
    have "length (drop 2 (dropWhile (\<lambda>c. c \<noteq> CHR ''}'') r)) \<le> length r"
      using length_dropWhile_le [of "\<lambda>c. c \<noteq> CHR ''}''" r] by simp
    with m x Cons show ?thesis
      by (auto simp: Let_def split: if_splits)
  qed
  then show "(y, c # s) \<in> measure length" by simp
next
  fix c :: char and s
  show "(s, c # s) \<in> measure length" by simp
qed

record templateValidation =
  valid :: bool
  variables :: "string list"

definition validateTemplate :: "string \<Rightarrow> templateValidation" where
  "validateTemplate template = \<lparr>valid = True, variables = exec_all template\<rparr>"

section \<open>Creating a campaign (services/broadcastService.js)\<close>

datatype error = TypeError | ValidationError | Error string

text \<open>
  \<^verbatim>\<open>createBroadcast(data, userId)\<close>. The object handed to \<^verbatim>\<open>Broadcast.create\<close> is
  built first (\<^verbatim>\<open>data.contacts.length\<close> throws on undefined contacts), then the schema
  validates it: \<^verbatim>\<open>name\<close> (trimmed) and \<^verbatim>\<open>messageTemplate\<close> are required, the voice
  provider is one of \<^verbatim>\<open>edge\<close> and \<^verbatim>\<open>elevenlabs\<close>, every contact has a phone. The id of
  the new document is the argument \<open>newId\<close>.
\<close>

definition make_voice :: "voiceData option \<Rightarrow> voice" where
  "make_voice v =
     \<lparr>provider = str_or (Option.bind v voiceData.provider) ''edge'',
      voiceId = str_or (Option.bind v voiceData.voiceId) ''en-IN-NeerjaNeural'',
      language = str_or (Option.bind v voiceData.language) ''en-IN''\<rparr>"

definition make_compliance :: "complianceData option \<Rightarrow> compliance" where
  "make_compliance co =
     \<lparr>disclaimerText =
        (case Option.bind co complianceData.disclaimerText of
           None \<Rightarrow> ''This is an automated call from'' | Some t \<Rightarrow> t),
      optOutEnabled =
        (case Option.bind co complianceData.optOutEnabled of None \<Rightarrow> True | Some x \<Rightarrow> x),
      dndRespect =
        (case Option.bind co complianceData.dndRespect of None \<Rightarrow> True | Some x \<Rightarrow> x)\<rparr>"

definition make_config :: "broadcastData \<Rightarrow> config" where
  "make_config data =
     \<lparr>maxConcurrent = num_or (broadcastData.maxConcurrent data) 50,
      maxRetries = num_or (broadcastData.maxRetries data) 2,
      retryDelay = num_or (broadcastData.retryDelay data) 30000,
      compliance = make_compliance (broadcastData.compliance data)\<rparr>"

definition createBroadcast :: "broadcastData \<Rightarrow> objectId \<Rightarrow> objectId \<Rightarrow> error + broadcast" where
  "createBroadcast data userId newId =
     (case broadcastData.contacts data of
        None \<Rightarrow> Inl TypeError
      | Some cs \<Rightarrow>
          (let v = make_voice (broadcastData.voice data);
               nm = trim (case broadcastData.name data of None \<Rightarrow> [] | Some n \<Rightarrow> n);
               tpl = (case broadcastData.messageTemplate data of None \<Rightarrow> [] | Some t \<Rightarrow> t)
           in if nm = [] \<or> tpl = []
                 \<or> voice.provider v \<notin> set [''edge'', ''elevenlabs'']
                 \<or> list_ex (\<lambda>ct. contact.phone ct = []) cs
              then Inl ValidationError
              else Inr \<lparr>bid = newId, name = nm, messageTemplate = tpl, voice = v,
                        contacts = cs, status = Draft,
                        stats = \<lparr>total = length cs, queued = 0, calling = 0, answered = 0,
                                 completed = 0, failed = 0, opted_out = 0\<rparr>,
                        config = make_config data,
                        startedAt = None, completedAt = None, createdBy = userId\<rparr>))"

section \<open>POST /broadcast/start (controllers/broadcastController.js)\<close>

text \<open>
  The request body carries no \<^verbatim>\<open>retryDelay\<close>: the controller passes on the name, the
  template, the voice, the contacts, \<^verbatim>\<open>maxConcurrent\<close>, \<^verbatim>\<open>maxRetries\<close> and the
  compliance settings only. An undefined template reaches the pattern as the text
  \<^verbatim>\<open>undefined\<close>. Starting the campaign (synthesis, call rows, ticker) is launched
  without being awaited and is not part of the response.
\<close>

datatype response =
  Json201 objectId string broadcast_status nat
  | Json400 string
  | Json500 string

definition BroadcastController_startBroadcast ::
  "broadcastData \<Rightarrow> objectId \<Rightarrow> objectId \<Rightarrow> response \<times> broadcast option" where
  "BroadcastController_startBroadcast body userId newId =
     (let templateValidation =
            validateTemplate
              (case broadcastData.messageTemplate body of None \<Rightarrow> ''undefined'' | Some t \<Rightarrow> t)
      in if \<not> valid templateValidation then (Json400 ''Invalid message template'', None)
         else (case broadcastData.contacts body of
                 None \<Rightarrow> (Json400 ''No contacts provided'', None)
               | Some cs \<Rightarrow>
                   if length cs = 0 then (Json400 ''No contacts provided'', None)
                   else if length cs > 10000
                   then (Json400 ''Maximum 10,000 contacts per broadcast'', None)
                   else (case createBroadcast (body\<lparr>broadcastData.retryDelay := None\<rparr>)
                                userId newId of
                           Inl e \<Rightarrow> (Json500 ''Failed to start broadcast'', None)
                         | Inr b \<Rightarrow>
                             (Json201 (bid b) (broadcast.name b) (broadcast.status b)
                                (length (broadcast.contacts b)), Some b))))"

section \<open>The dispatch engine (services/broadcastQueueService.js)\<close>

text \<open>
  The value a caller passes as \<^verbatim>\<open>broadcastId\<close>. The controller starts a campaign with
  the ObjectId object \<^verbatim>\<open>broadcast._id\<close>, which the ticker of the campaign keeps for its
  ticks; it cancels and deletes with the string \<^verbatim>\<open>req.params.id\<close> of the URL. A query
  casts both to the same id. As keys of the \<^verbatim>\<open>Map\<close> \<^verbatim>\<open>activeBroadcasts\<close> they differ: an
  object is a key by its identity, and a string is never the key that an object is.
\<close>

datatype broadcast_id = IdObject objectId | IdString objectId

fun id_of :: "broadcast_id \<Rightarrow> objectId" where
  "id_of (IdObject i) = i"
| "id_of (IdString i) = i"

text \<open>
  The state the engine works on: the three collections, the registry
  \<^verbatim>\<open>activeBroadcasts\<close> (the keys of the campaigns that own a ticker), and the log of the
  dial requests handed to the provider (the id of the call of each
  \<^verbatim>\<open>makeVoiceBroadcastCall\<close>, newest last). Socket emissions change no state and are
  left out.
\<close>

record db =
  broadcasts :: "broadcast list"
  calls :: "call list"
  optOuts :: "optOut list"
  activeBroadcasts :: "broadcast_id set"
  dialRequests :: "objectId list"

definition BroadcastQueueService_startBroadcast :: "broadcast_id \<Rightarrow> db \<Rightarrow> db" where
  "BroadcastQueueService_startBroadcast broadcastId s =
     (if broadcastId \<in> activeBroadcasts s then s
      else s\<lparr>activeBroadcasts := insert broadcastId (activeBroadcasts s)\<rparr>)"

definition stopBroadcast :: "broadcast_id \<Rightarrow> db \<Rightarrow> db" where
  "stopBroadcast broadcastId s =
     (if broadcastId \<in> activeBroadcasts s
      then s\<lparr>activeBroadcasts := activeBroadcasts s - {broadcastId}\<rparr> else s)"

text \<open>
  \<^verbatim>\<open>countDocuments({broadcast, status: {$in: [...]}})\<close> and MongoDB's \<^verbatim>\<open>limit\<close>, for
  which 0 means no limit.
\<close>

definition countDocuments :: "objectId \<Rightarrow> call_status list \<Rightarrow> call list \<Rightarrow> nat" where
  "countDocuments broadcastId sts cs =
     length (filter (\<lambda>c. call.broadcast c = broadcastId \<and> call.status c \<in> set sts) cs)"

definition limit :: "nat \<Rightarrow> 'a list \<Rightarrow> 'a list" where
  "limit n xs = (if n = 0 then xs else take n xs)"

text \<open>
  The static \<^verbatim>\<open>getRetryableCalls(broadcastId)\<close>: status \<^verbatim>\<open>queued\<close>,
  \<^verbatim>\<open>attempts: {$lt: 2}\<close>, \<^verbatim>\<open>retryAfter: {$lte: new Date()}\<close> (a call without
  \<^verbatim>\<open>retryAfter\<close> does not match), \<^verbatim>\<open>limit(50)\<close>, no sort.
\<close>

definition retryable :: "objectId \<Rightarrow> date \<Rightarrow> call \<Rightarrow> bool" where
  "retryable broadcastId now c =
     (call.broadcast c = broadcastId \<and> call.status c = Queued \<and> attempts c < 2
      \<and> (case retryAfter c of None \<Rightarrow> False | Some t \<Rightarrow> t \<le> now))"

definition getRetryableCalls :: "objectId \<Rightarrow> date \<Rightarrow> call list \<Rightarrow> call list" where
  "getRetryableCalls broadcastId now cs = limit 50 (filter (retryable broadcastId now) cs)"

definition fresh :: "objectId \<Rightarrow> call \<Rightarrow> bool" where
  "fresh broadcastId c =
     (call.broadcast c = broadcastId \<and> call.status c = Queued \<and> attempts c = 0)"

text \<open>
  \<^verbatim>\<open>_getNextCalls(broadcastId, limit)\<close>; the second argument is \<open>lim\<close> here. The slice
  \<^verbatim>\<open>retryCalls.slice(0, limit - freshCalls.length)\<close> is reached with a positive bound
  only.
\<close>

definition getNextCalls :: "objectId \<Rightarrow> nat \<Rightarrow> date \<Rightarrow> call list \<Rightarrow> call list" where
  "getNextCalls broadcastId lim now cs =
     (let freshCalls = limit lim (filter (fresh broadcastId) cs)
      in if length freshCalls \<ge> lim then freshCalls
         else (let retryCalls = getRetryableCalls broadcastId now cs
               in freshCalls @ take (lim - length freshCalls) retryCalls))"

text \<open>\<^verbatim>\<open>_checkDND\<close> (no registry is consulted) and \<^verbatim>\<open>_isOptedOut\<close>.\<close>

definition checkDND :: "string \<Rightarrow> dnd_status" where
  "checkDND phoneNumber = Allowed"

definition isOptedOut :: "string \<Rightarrow> optOut list \<Rightarrow> bool" where
  "isOptedOut phoneNumber os = list_ex (\<lambda>ou. optOut.phone ou = phoneNumber) os"

text \<open>
  \<^verbatim>\<open>_initiateCall(callDoc, broadcast)\<close>. The provider is the parameter \<open>twilio\<close>: for a
  call it answers with a SID or throws an error that has a code (possibly undefined) and a
  message. \<open>broadcast\<close> is the campaign document the tick holds, shared by all the dials
  of a batch; \<^verbatim>\<open>incrementStat\<close> changes it and saves it. A save that is started while
  another save of the same document is in progress is rejected (Mongoose's
  \<^verbatim>\<open>ParallelSaveError\<close>, which has no code): the parameter \<open>saveError\<close> is the message
  of that error for the save of this dial, or \<open>None\<close> when the save goes through. The
  \<^verbatim>\<open>catch\<close> block loads the call again and marks it failed with
  \<^verbatim>\<open>error.code || 500\<close> and \<^verbatim>\<open>retry = true\<close>.
\<close>

type_synonym provider = "call \<Rightarrow> (int option \<times> string) + string"

definition catch_markFailed :: "int option \<Rightarrow> string \<Rightarrow> date \<Rightarrow> objectId \<Rightarrow> db \<Rightarrow> db" where
  "catch_markFailed code msg now callDocId s =
     (case BroadcastCall_findById (calls s) callDocId of
        None \<Rightarrow> s
      | Some c2 \<Rightarrow>
          s\<lparr>calls := BroadcastCall_save
                       (markFailed (num_or code 500) msg True now (broadcasts s) c2)
                       (calls s)\<rparr>)"

definition incrementStat_saved ::
  "string option \<Rightarrow> stat_key \<Rightarrow> date \<Rightarrow> objectId \<Rightarrow> broadcast \<Rightarrow> db \<Rightarrow> broadcast \<times> db" where
  "incrementStat_saved saveError key now callDocId b s =
     (let b' = incrementStat key b
      in case saveError of
           None \<Rightarrow> (b', s\<lparr>broadcasts := Broadcast_save b' (broadcasts s)\<rparr>)
         | Some msg \<Rightarrow> (b', catch_markFailed None msg now callDocId s))"

definition initiateCall ::
  "provider \<Rightarrow> string option \<Rightarrow> date \<Rightarrow> objectId \<Rightarrow> broadcast \<times> db \<Rightarrow> broadcast \<times> db" where
  "initiateCall twilio saveError now callDocId bs =
     (let b = fst bs; s = snd bs
      in case BroadcastCall_findById (calls s) callDocId of
           None \<Rightarrow> (b, s)
         | Some c \<Rightarrow>
             if dndRespect (compliance (config b))
                \<and> checkDND (contact.phone (contact c)) = Blocked
             then (let c' = c\<lparr>dndStatus := Blocked, call.status := Failed\<rparr>
                   in incrementStat_saved saveError SFailed now callDocId b
                        (s\<lparr>calls := BroadcastCall_save c' (calls s)\<rparr>))
             else if isOptedOut (contact.phone (contact c)) (optOuts s)
             then (let c' = markOptedOut now c
                   in incrementStat_saved saveError SOptedOut now callDocId b
                        (s\<lparr>calls := BroadcastCall_save c' (calls s)\<rparr>))
             else (let s1 = s\<lparr>dialRequests := dialRequests s @ [cid c]\<rparr>
                   in case twilio c of
                        Inr sid \<Rightarrow>
                          (let c' = markCalling sid now c
                           in incrementStat_saved saveError SCalling now callDocId b
                                (s1\<lparr>calls := BroadcastCall_save c' (calls s1)\<rparr>))
                      | Inl (code, msg) \<Rightarrow> (b, catch_markFailed code msg now callDocId s1)))"

text \<open>
  \<^verbatim>\<open>_processBroadcastQueue(broadcastId)\<close>, one tick of the ticker that was started with
  the key \<open>broadcastId\<close>. The dials of a batch are started together and awaited
  together on the one campaign document. The model runs them in the order of the batch;
  what their overlap adds is the rejected save: \<open>clash k\<close> is the error of the save of the
  \<open>k\<close>-th dial of the batch, if that save runs into another one. A batch of one dial has
  no other save to run into.
\<close>

definition pendingCalls :: "objectId \<Rightarrow> call list \<Rightarrow> nat" where
  "pendingCalls broadcastId cs =
     countDocuments broadcastId [Queued, Calling, Ringing, InProgress] cs"

definition activeCalls :: "objectId \<Rightarrow> call list \<Rightarrow> nat" where
  "activeCalls broadcastId cs = countDocuments broadcastId [Calling, Ringing, InProgress] cs"

definition availableSlots :: "broadcast \<Rightarrow> objectId \<Rightarrow> call list \<Rightarrow> int" where
  "availableSlots b broadcastId cs =
     num_or (Some (maxConcurrent (config b))) 50 - int (activeCalls broadcastId cs)"

definition allSettled ::
  "provider \<Rightarrow> (nat \<Rightarrow> string option) \<Rightarrow> date \<Rightarrow> call list \<Rightarrow> broadcast \<times> db
     \<Rightarrow> broadcast \<times> db" where
  "allSettled twilio clash now callsToMake bs =
     fold (\<lambda>kc. initiateCall twilio
                   (if length callsToMake < 2 then None else clash (fst kc)) now (cid (snd kc)))
       (enumerate 0 callsToMake) bs"

definition processBroadcastQueue ::
  "provider \<Rightarrow> (nat \<Rightarrow> string option) \<Rightarrow> date \<Rightarrow> broadcast_id \<Rightarrow> db \<Rightarrow> db" where
  "processBroadcastQueue twilio clash now broadcastId s =
     (case Broadcast_findById (broadcasts s) (id_of broadcastId) of
        None \<Rightarrow> stopBroadcast broadcastId s
      | Some b0 \<Rightarrow>
          if broadcast.status b0 \<in> set [BCompleted, BCancelled] then stopBroadcast broadcastId s
          else
            (let b = (if broadcast.status b0 = BQueued then updateStatus BInProgress now b0
                      else b0);
                 s1 = (if broadcast.status b0 = BQueued
                       then s\<lparr>broadcasts := Broadcast_save b (broadcasts s)\<rparr> else s);
                 slots = availableSlots b (id_of broadcastId) (calls s1)
             in if slots \<le> 0 then s1
                else
                  (let callsToMake =
                         getNextCalls (id_of broadcastId) (nat slots) now (calls s1)
                   in if length callsToMake = 0
                      then (if pendingCalls (id_of broadcastId) (calls s1) = 0
                            then (let b' = updateStatus BCompleted now b
                                  in stopBroadcast broadcastId
                                       (s1\<lparr>broadcasts := Broadcast_save b' (broadcasts s1)\<rparr>))
                            else s1)
                      else snd (allSettled twilio clash now callsToMake (b, s1)))))"

section \<open>Campaign aggregates\<close>

text \<open>
  The pipeline \<^verbatim>\<open>[{$match: {broadcast}}, {$group: {_id: '$status', count: {$sum: 1}}}]\<close>
  gives one row per status that occurs among the calls of the campaign, with the number of
  those calls. \<^verbatim>\<open>stats.forEach(s => statMap[s._id] = s.count)\<close> turns the rows into an
  object, read with \<^verbatim>\<open>statMap.key || 0\<close>.
\<close>

definition aggregate :: "objectId \<Rightarrow> call list \<Rightarrow> (call_status \<times> nat) list" where
  "aggregate broadcastId cs =
     (let matched = filter (\<lambda>c. call.broadcast c = broadcastId) cs
      in map (\<lambda>st. (st, length (filter (\<lambda>c. call.status c = st) matched)))
           (remdups (map call.status matched)))"

definition statMap_of :: "(call_status \<times> nat) list \<Rightarrow> (call_status \<rightharpoonup> nat)" where
  "statMap_of rows = fold (\<lambda>r m. m(fst r \<mapsto> snd r)) rows Map.empty"

definition or0 :: "nat option \<Rightarrow> nat" where
  "or0 x = (case x of None \<Rightarrow> 0 | Some n \<Rightarrow> n)"

text \<open>
  \<^verbatim>\<open>updateBroadcastStats(broadcast)\<close> of the webhook handler. The object assigned to
  \<^verbatim>\<open>broadcast.stats\<close> has no \<^verbatim>\<open>opted_out\<close> key, so the path is unset by the save and
  every later load of the campaign reads the schema default 0.
\<close>

definition updateBroadcastStats :: "broadcast \<Rightarrow> call list \<Rightarrow> broadcast" where
  "updateBroadcastStats b cs =
     (let statMap = statMap_of (aggregate (bid b) cs)
      in b\<lparr>stats := \<lparr>total = total (stats b),
                      queued = or0 (statMap Queued),
                      calling = or0 (statMap Calling),
                      answered = or0 (statMap Answered),
                      completed = or0 (statMap Completed),
                      failed = or0 (statMap Failed),
                      opted_out = 0\<rparr>\<rparr>)"

text \<open>
  \<^verbatim>\<open>getBroadcastStatus(broadcastId)\<close> of the campaign service: the same recomputation,
  with \<^verbatim>\<open>opted_out\<close>.
\<close>

definition getBroadcastStatus :: "objectId \<Rightarrow> db \<Rightarrow> error + broadcast \<times> db" where
  "getBroadcastStatus broadcastId s =
     (case Broadcast_findById (broadcasts s) broadcastId of
        None \<Rightarrow> Inl (Error ''Broadcast not found'')
      | Some b \<Rightarrow>
          (let statMap = statMap_of (aggregate (bid b) (calls s));
               b' = b\<lparr>stats := \<lparr>total = total (stats b),
                                 queued = or0 (statMap Queued),
                                 calling = or0 (statMap Calling),
                                 answered = or0 (statMap Answered),
                                 completed = or0 (statMap Completed),
                                 failed = or0 (statMap Failed),
                                 opted_out = or0 (statMap OptedOut)\<rparr>\<rparr>
           in Inr (b', s\<lparr>broadcasts := Broadcast_save b' (broadcasts s)\<rparr>)))"

definition stats_sum :: "stats \<Rightarrow> nat" where
  "stats_sum st =
     queued st + calling st + answered st + completed st + failed st + opted_out st"

section \<open>Cancelling a campaign (services/broadcastService.js)\<close>

text \<open>
  \<^verbatim>\<open>cancelBroadcast(broadcastId)\<close>: \<^verbatim>\<open>stopBroadcast\<close> is called with the value the
  caller passed (it removes a ticker only if that value is its key), every queued call of
  the campaign becomes \<^verbatim>\<open>cancelled\<close>, the campaign's status is updated to \<^verbatim>\<open>cancelled\<close>.
  The controller passes the string of the URL, and answers \<^verbatim>\<open>success: true\<close> when the
  service returns and with status 500 when it throws.
\<close>

definition updateMany_cancel :: "objectId \<Rightarrow> call list \<Rightarrow> call list" where
  "updateMany_cancel broadcastId cs =
     map (\<lambda>c. if call.broadcast c = broadcastId \<and> call.status c = Queued
               then c\<lparr>call.status := Cancelled\<rparr> else c) cs"

definition cancelBroadcast :: "broadcast_id \<Rightarrow> date \<Rightarrow> db \<Rightarrow> error + broadcast \<times> db" where
  "cancelBroadcast broadcastId now s =
     (case Broadcast_findById (broadcasts s) (id_of broadcastId) of
        None \<Rightarrow> Inl (Error ''Broadcast not found'')
      | Some b \<Rightarrow>
          (let s1 = stopBroadcast broadcastId s;
               s2 = s1\<lparr>calls := updateMany_cancel (id_of broadcastId) (calls s1)\<rparr>;
               b' = updateStatus BCancelled now b
           in Inr (b', s2\<lparr>broadcasts := Broadcast_save b' (broadcasts s2)\<rparr>)))"

section \<open>The status webhook\<close>

text \<open>
  \<^verbatim>\<open>handleCallStatus(req, res)\<close> for \<^verbatim>\<open>POST /webhook/broadcast/:callId/status\<close>.
  \<open>CallDuration\<close> is the value of \<^verbatim>\<open>parseInt(CallDuration, 10)\<close>, undefined for NaN.
  The URL parameter is an ObjectId, or \<open>None\<close> when it is missing or cannot be cast to
  one (\<^verbatim>\<open>findById\<close> then throws, which the inner \<^verbatim>\<open>try\<close> catches).
\<close>

record statusBody =
  CallSid :: string
  CallStatus :: string
  CallDuration :: "int option"
  AnsweredBy :: "string option"
  ErrorCode :: "string option"
  ErrorMessage :: "string option"

definition statusMap :: "string \<rightharpoonup> call_status" where
  "statusMap = map_of
     [(''initiated'', Calling), (''ringing'', Ringing), (''in-progress'', Answered),
      (''completed'', Completed), (''busy'', Failed), (''no-answer'', Failed),
      (''failed'', Failed), (''canceled'', Cancelled)]"

text \<open>
  The names of the schema's status enum. A status outside the enum fails the validation of
  \<^verbatim>\<open>call.save()\<close>, and the handler answers 500.
\<close>

definition status_enum :: "string \<rightharpoonup> call_status" where
  "status_enum = map_of
     [(''queued'', Queued), (''calling'', Calling), (''ringing'', Ringing),
      (''in_progress'', InProgress), (''answered'', Answered), (''completed'', Completed),
      (''failed'', Failed), (''busy'', Busy), (''no_answer'', NoAnswer),
      (''cancelled'', Cancelled), (''opted_out'', OptedOut)]"

definition mapped_status :: "string \<Rightarrow> call_status option" where
  "mapped_status cs = (case statusMap cs of Some st \<Rightarrow> Some st | None \<Rightarrow> status_enum cs)"

definition findOne_callSid :: "call list \<Rightarrow> string \<Rightarrow> call option" where
  "findOne_callSid cs sid = find (\<lambda>c. callSid c = Some sid) cs"

definition truthy :: "string option \<Rightarrow> bool" where
  "truthy x = (case x of None \<Rightarrow> False | Some v \<Rightarrow> v \<noteq> [])"

definition metadata_or_empty :: "metadata option \<Rightarrow> metadata" where
  "metadata_or_empty m =
     (case m of None \<Rightarrow> \<lparr>answeredBy = None, errorCode = None, errorMessage = None\<rparr>
      | Some x \<Rightarrow> x)"

text \<open>The lookup: by SID first, then by the id of the URL, with the backfill.\<close>

definition lookup_call :: "statusBody \<Rightarrow> objectId option \<Rightarrow> db \<Rightarrow> call option \<times> db" where
  "lookup_call body callId s =
     (case findOne_callSid (calls s) (CallSid body) of
        Some c \<Rightarrow> (Some c, s)
      | None \<Rightarrow>
          (case callId of
             None \<Rightarrow> (None, s)
           | Some i \<Rightarrow>
               (case BroadcastCall_findById (calls s) i of
                  None \<Rightarrow> (None, s)
                | Some c \<Rightarrow>
                    if \<not> truthy (callSid c)
                    then (let c' = c\<lparr>callSid := Some (CallSid body)\<rparr>
                          in (Some c', s\<lparr>calls := BroadcastCall_save c' (calls s)\<rparr>))
                    else (Some c, s))))"

definition apply_status :: "statusBody \<Rightarrow> date \<Rightarrow> call_status \<Rightarrow> call \<Rightarrow> call" where
  "apply_status body now st c =
     (let c1 = c\<lparr>call.status := st\<rparr>;
          c2 = (if CallStatus body = ''completed''
                then c1\<lparr>duration := Some (num_or (CallDuration body) 0), endTime := Some now\<rparr>
                else c1);
          c3 = (if truthy (AnsweredBy body)
                then c2\<lparr>metadata :=
                          Some ((metadata_or_empty (metadata c2))\<lparr>answeredBy := AnsweredBy body\<rparr>)\<rparr>
                else c2)
      in if truthy (ErrorCode body) \<or> truthy (ErrorMessage body)
         then c3\<lparr>metadata :=
                   Some ((metadata_or_empty (metadata c3))
                           \<lparr>errorCode := ErrorCode body, errorMessage := ErrorMessage body\<rparr>)\<rparr>
         else c3)"

definition handleCallStatus :: "statusBody \<Rightarrow> objectId option \<Rightarrow> date \<Rightarrow> db \<Rightarrow> nat \<times> db" where
  "handleCallStatus body callId now s =
     (case lookup_call body callId s of
        (None, s1) \<Rightarrow> (404, s1)
      | (Some c, s1) \<Rightarrow>
          (case mapped_status (CallStatus body) of
             None \<Rightarrow> (500, s1)
           | Some st \<Rightarrow>
               (let c' = apply_status body now st c;
                    s2 = s1\<lparr>calls := BroadcastCall_save c' (calls s1)\<rparr>
                in case Broadcast_findById (broadcasts s2) (call.broadcast c') of
                     None \<Rightarrow> (200, s2)
                   | Some b \<Rightarrow>
                       (200, s2\<lparr>broadcasts :=
                                  Broadcast_save (updateBroadcastStats b (calls s2))
                                    (broadcasts s2)\<rparr>))))"

section \<open>Example documents\<close>

text \<open>
  A campaign with the configuration \<^verbatim>\<open>createBroadcast\<close> gives a request that sets none
  of the limits, one of its calls as \<^verbatim>\<open>_createBroadcastCalls\<close> inserts it, and an
  opt-out record for the phone of that call that expired at time 5.
\<close>

definition campaign0 :: broadcast where
  "campaign0 =
     \<lparr>bid = 1, name = ''Diwali'', messageTemplate = ''Hi {{name}}'',
      voice = \<lparr>provider = ''edge'', voiceId = ''en-IN-NeerjaNeural'', language = ''en-IN''\<rparr>,
      contacts = [\<lparr>contact.phone = ''+15559'', name = Some ''A''\<rparr>],
      status = BInProgress,
      stats = \<lparr>total = 1, queued = 1, calling = 0, answered = 0, completed = 0, failed = 0,
               opted_out = 0\<rparr>,
      config = \<lparr>maxConcurrent = 50, maxRetries = 2, retryDelay = 30000,
                compliance = \<lparr>disclaimerText = ''This is an automated call from'',
                               optOutEnabled = True, dndRespect = True\<rparr>\<rparr>,
      startedAt = Some 0, completedAt = None, createdBy = 9\<rparr>"

definition call0 :: call where
  "call0 =
     \<lparr>cid = 7, broadcast = 1, contact = \<lparr>contact.phone = ''+15559'', name = Some ''A''\<rparr>,
      audioUrl = Some ''https://cdn/a.mp3'', callSid = None, status = Queued, attempts = 0,
      retryAfter = None, duration = None, startTime = None, endTime = None,
      twilioError = None, dndStatus = Unchecked, optedOut = False, metadata = None\<rparr>"

definition expired_optOut :: optOut where
  "expired_optOut =
     \<lparr>phone = ''+15559'', source = BroadcastKeypress, optedOutAt = 0, expiresAt = 5\<rparr>"

definition db0 :: db where
  "db0 = \<lparr>broadcasts = [campaign0], calls = [call0], optOuts = [],
          activeBroadcasts = {IdObject 1}, dialRequests = []\<rparr>"

definition data0 :: broadcastData where
  "data0 =
     \<lparr>broadcastData.name = Some ''Diwali'',
      broadcastData.messageTemplate = Some ''Hi {{name}}'',
      broadcastData.voice = None,
      broadcastData.contacts = Some [\<lparr>contact.phone = ''+15559'', name = Some ''A''\<rparr>],
      broadcastData.maxConcurrent = None, broadcastData.maxRetries = None,
      broadcastData.retryDelay = None, broadcastData.compliance = None\<rparr>"

definition body0 :: statusBody where
  "body0 = \<lparr>CallSid = ''CA1'', CallStatus = ''completed'', CallDuration = Some 12,
            AnsweredBy = None, ErrorCode = None, ErrorMessage = None\<rparr>"

text \<open>The status of a campaign as the collection holds it.\<close>

definition campaign_status :: "db \<Rightarrow> objectId \<Rightarrow> broadcast_status option" where
  "campaign_status s i = map_option broadcast.status (Broadcast_findById (broadcasts s) i)"

text \<open>
  The campaign once the dispatch engine has completed it at time 40, with its only call
  completed and its ticker gone; a provider that accepts every dial, and one that rejects
  every dial with the code 21610.
\<close>

definition campaign_done :: broadcast where
  "campaign_done = campaign0\<lparr>broadcast.status := BCompleted, completedAt := Some 40\<rparr>"

definition db_done :: db where
  "db_done = \<lparr>broadcasts = [campaign_done], calls = [call0\<lparr>call.status := Completed\<rparr>],
              optOuts = [], activeBroadcasts = {}, dialRequests = []\<rparr>"

definition twilio_ok :: provider where
  "twilio_ok c = Inr ''CA1''"

definition twilio_rejects :: provider where
  "twilio_rejects c = Inl (Some 21610, ''blocked'')"

definition no_clash :: "nat \<Rightarrow> string option" where
  "no_clash k = None"

text \<open>
  The call after a successful dial at time 10, the state with that call, the status
  webhook by which the provider reports that the call is in progress, and the state that
  webhook leaves.
\<close>

definition call_calling :: call where
  "call_calling = markCalling ''CA1'' 10 call0"

definition db_calling :: db where
  "db_calling = db0\<lparr>calls := [call_calling]\<rparr>"

definition body_in_progress :: statusBody where
  "body_in_progress = \<lparr>CallSid = ''CA1'', CallStatus = ''in-progress'', CallDuration = None,
                        AnsweredBy = None, ErrorCode = None, ErrorMessage = None\<rparr>"

definition campaign_answered :: broadcast where
  "campaign_answered =
     campaign0\<lparr>stats := \<lparr>total = 1, queued = 0, calling = 0, answered = 1, completed = 0,
                          failed = 0, opted_out = 0\<rparr>\<rparr>"

definition db_answered :: db where
  "db_answered = db0\<lparr>broadcasts := [campaign_answered],
                    calls := [call_calling\<lparr>call.status := Answered\<rparr>]\<rparr>"

text \<open>The campaign as \<^verbatim>\<open>createBroadcast\<close> returns it for the request \<open>data0\<close>.\<close>

definition created0 :: broadcast where
  "created0 = campaign0\<lparr>broadcast.status := Draft, startedAt := None,
                        stats := (stats campaign0)\<lparr>queued := 0\<rparr>\<rparr>"

section \<open>Facts about the collections\<close>

lemma find_call_cid: "BroadcastCall_findById cs i = Some c \<Longrightarrow> cid c = i \<and> c \<in> set cs"
  unfolding BroadcastCall_findById_def by (induction cs) (auto split: if_splits)

lemma find_save_call:
  "\<exists>x\<in>set cs. cid x = cid c \<Longrightarrow> BroadcastCall_findById (BroadcastCall_save c cs) (cid c) = Some c"
  unfolding BroadcastCall_findById_def BroadcastCall_save_def
  by (induction cs) auto

lemma save_keeps_ids: "map cid (BroadcastCall_save c cs) = map cid cs"
  by (induction cs) (auto simp: BroadcastCall_save_def)

lemma findOne_callSid_mem: "findOne_callSid cs sid = Some c \<Longrightarrow> c \<in> set cs \<and> callSid c = Some sid"
  unfolding findOne_callSid_def by (induction cs) (auto split: if_splits)

lemma find_broadcast_bid: "Broadcast_findById bs i = Some b \<Longrightarrow> bid b = i \<and> b \<in> set bs"
  unfolding Broadcast_findById_def by (induction bs) (auto split: if_splits)

lemma find_save_broadcast:
  "\<exists>x\<in>set bs. bid x = bid b \<Longrightarrow> Broadcast_findById (Broadcast_save b bs) (bid b) = Some b"
  unfolding Broadcast_findById_def Broadcast_save_def
  by (induction bs) auto

lemma find_save_status:
  "bid b' = i \<Longrightarrow>
   map_option broadcast.status (Broadcast_findById (Broadcast_save b' bs) i)
     = (if Broadcast_findById bs i = None then None else Some (broadcast.status b'))"
  unfolding Broadcast_findById_def Broadcast_save_def
  by (induction bs) auto

lemma campaign_status_save:
  "bid b' = i \<Longrightarrow>
   campaign_status (s\<lparr>broadcasts := Broadcast_save b' (broadcasts s)\<rparr>) i
     = (if campaign_status s i = None then None else Some (broadcast.status b'))"
  using find_save_status [of b' i "broadcasts s"] by (simp add: campaign_status_def)

lemma campaign_status_frame:
  "campaign_status (s\<lparr>calls := cs\<rparr>) i = campaign_status s i"
  "campaign_status (s\<lparr>dialRequests := ds\<rparr>) i = campaign_status s i"
  "campaign_status (s\<lparr>activeBroadcasts := a\<rparr>) i = campaign_status s i"
  by (simp_all add: campaign_status_def)

lemma campaign_status_catch:
  "campaign_status (catch_markFailed code msg now k s) i = campaign_status s i"
  by (simp add: catch_markFailed_def campaign_status_frame split: option.splits)

section \<open>The retry policy of markFailed\<close>

lemma markFailed_status:
  "call.status (markFailed code msg r now bs c) = (if r \<and> attempts c < 2 then Queued else Failed)"
  by (simp add: markFailed_def Let_def)

lemma markFailed_retryAfter:
  "r \<Longrightarrow> attempts c < 2 \<Longrightarrow>
   retryAfter (markFailed code msg r now bs c)
     = Some (now + retryDelay_of (Broadcast_findById bs (call.broadcast c)))"
  by (simp add: markFailed_def Let_def)

lemma markFailed_attempts: "attempts (markFailed code msg r now bs c) = attempts c"
  by (simp add: markFailed_def Let_def)

text \<open>
  Whatever \<^verbatim>\<open>config.maxRetries\<close> the campaigns hold, \<^verbatim>\<open>markFailed\<close> does the same.
\<close>

lemma find_map_maxRetries:
  "Broadcast_findById (map (\<lambda>b. b\<lparr>config := (config b)\<lparr>maxRetries := m\<rparr>\<rparr>) bs) i
     = map_option (\<lambda>b. b\<lparr>config := (config b)\<lparr>maxRetries := m\<rparr>\<rparr>) (Broadcast_findById bs i)"
  unfolding Broadcast_findById_def by (induction bs) auto

lemma markFailed_ignores_maxRetries:
  "markFailed code msg r now (map (\<lambda>b. b\<lparr>config := (config b)\<lparr>maxRetries := m\<rparr>\<rparr>) bs) c
     = markFailed code msg r now bs c"
  by (cases "Broadcast_findById bs (call.broadcast c)")
     (simp_all add: markFailed_def Let_def find_map_maxRetries retryDelay_of_def)

text \<open>
  A dial that the provider rejects never reaches \<^verbatim>\<open>markCalling\<close>, so the attempt is not
  counted: the call is queued again with \<open>attempts = 0\<close>, and the next tick selects it as
  a fresh call although its \<^verbatim>\<open>retryAfter\<close> lies in the future.
\<close>

lemma rejected_dial_stays_fresh:
  "calls (snd (initiateCall twilio_rejects None 10 7 (campaign0, db0)))
     = [call0\<lparr>call.status := Queued, endTime := Some 10,
              twilioError := Some (21610, ''blocked''), retryAfter := Some 30010\<rparr>]
   \<and> getNextCalls 1 50 11 (calls (snd (initiateCall twilio_rejects None 10 7 (campaign0, db0))))
     = [call0\<lparr>call.status := Queued, endTime := Some 10,
              twilioError := Some (21610, ''blocked''), retryAfter := Some 30010\<rparr>]"
  by (simp add: initiateCall_def catch_markFailed_def twilio_rejects_def campaign0_def db0_def
      call0_def BroadcastCall_findById_def checkDND_def isOptedOut_def markFailed_def num_or_def
      retryDelay_of_def Broadcast_findById_def BroadcastCall_save_def getNextCalls_def
      getRetryableCalls_def limit_def fresh_def retryable_def Let_def)

text \<open>
  Claim C1. The claim: \<^verbatim>\<open>markFailed\<close> with \<^verbatim>\<open>retry = true\<close> queues the call again exactly
  when \<open>attempts < maxRetries + 1\<close>. The code compares \<open>attempts\<close> with the literal 2 and
  never reads \<^verbatim>\<open>config.maxRetries\<close>: for the campaign with \<open>maxRetries = 2\<close> and a call
  with two attempts made (\<open>2 < 2 + 1\<close>), \<^verbatim>\<open>markFailed(21610, 'blocked', true)\<close> leaves the
  call in the terminal status \<^verbatim>\<open>failed\<close> and sets no \<^verbatim>\<open>retryAfter\<close>.
\<close>

theorem markFailed_third_attempt_not_requeued:
  "maxRetries (config campaign0) = 2
   \<and> int (attempts (call0\<lparr>attempts := 2, call.status := Calling\<rparr>))
       < maxRetries (config campaign0) + 1
   \<and> call.status (markFailed 21610 ''blocked'' True 1000 [campaign0]
                    (call0\<lparr>attempts := 2, call.status := Calling\<rparr>)) = Failed
   \<and> retryAfter (markFailed 21610 ''blocked'' True 1000 [campaign0]
                    (call0\<lparr>attempts := 2, call.status := Calling\<rparr>)) = None"
  by (simp add: markFailed_def Let_def campaign0_def call0_def)

section \<open>Status updates\<close>

lemma apply_status_status: "call.status (apply_status body now st c) = st"
  by (simp add: apply_status_def Let_def)

lemma apply_status_cid: "cid (apply_status body now st c) = cid c"
  by (simp add: apply_status_def Let_def)

lemma apply_status_callSid: "callSid (apply_status body now st c) = callSid c"
  by (simp add: apply_status_def Let_def)

lemma apply_status_broadcast: "call.broadcast (apply_status body now st c) = call.broadcast c"
  by (simp add: apply_status_def Let_def)

text \<open>
  Claim C2, as stated, fails: a call in the terminal status \<^verbatim>\<open>completed\<close> takes the
  status \<^verbatim>\<open>calling\<close> from a later \<^verbatim>\<open>markCalling\<close>, and the status \<^verbatim>\<open>ringing\<close> from a later
  status webhook.
\<close>

theorem terminal_status_overwritten_counterexample:
  "call.status (call0\<lparr>call.status := Completed, callSid := Some ''CA1''\<rparr>) = Completed
   \<and> call.status (markCalling ''CA1'' 20 (call0\<lparr>call.status := Completed, callSid := Some ''CA1''\<rparr>))
       = Calling
   \<and> map call.status
        (calls (snd (handleCallStatus (body0\<lparr>CallStatus := ''ringing''\<rparr>) (Some 7) 20
           (db0\<lparr>calls := [call0\<lparr>call.status := Completed, callSid := Some ''CA1''\<rparr>]\<rparr>))))
       = [Ringing]"
  by (simp add: markCalling_def call0_def handleCallStatus_def lookup_call_def body0_def db0_def
      findOne_callSid_def mapped_status_def statusMap_def apply_status_def Let_def truthy_def
      BroadcastCall_save_def Broadcast_findById_def campaign0_def Broadcast_save_def)

text \<open>
  Claim C2, amended. No update looks at the status the call has: \<^verbatim>\<open>markCalling\<close> sets
  \<^verbatim>\<open>calling\<close> and counts one more attempt whatever the status was, and a status webhook
  whose call is found by its SID and whose provider status maps to the domain status \<open>st\<close>
  answers 200 and stores \<open>st\<close> whatever the status was, a terminal one included.
\<close>

theorem status_updates_unguarded:
  "call.status (markCalling sid now c) = Calling
   \<and> attempts (markCalling sid now c) = attempts c + 1
   \<and> (findOne_callSid (calls s) (CallSid body) = Some c
        \<and> mapped_status (CallStatus body) = Some st
      \<longrightarrow> fst (handleCallStatus body callId now s) = 200
          \<and> map_option call.status
               (BroadcastCall_findById (calls (snd (handleCallStatus body callId now s))) (cid c))
              = Some st)"
proof -
  have "fst (handleCallStatus body callId now s) = 200
        \<and> map_option call.status
             (BroadcastCall_findById (calls (snd (handleCallStatus body callId now s))) (cid c))
            = Some st"
    if f: "findOne_callSid (calls s) (CallSid body) = Some c"
      and m: "mapped_status (CallStatus body) = Some st"
  proof -
    from f have l: "lookup_call body callId s = (Some c, s)"
      by (simp add: lookup_call_def)
    from f have mem: "\<exists>x\<in>set (calls s). cid x = cid (apply_status body now st c)"
      using findOne_callSid_mem [OF f] by (auto simp: apply_status_cid)
    have "BroadcastCall_findById (BroadcastCall_save (apply_status body now st c) (calls s)) (cid c)
          = Some (apply_status body now st c)"
      using find_save_call [OF mem] by (simp add: apply_status_cid)
    then show ?thesis
      using l m by (simp add: handleCallStatus_def Let_def apply_status_status split: option.splits)
  qed
  then show ?thesis by (simp add: markCalling_def)
qed

theorem status_updates_unguarded_witness:
  "findOne_callSid (calls (db0\<lparr>calls := [call0\<lparr>call.status := Completed, callSid := Some ''CA1''\<rparr>]\<rparr>))
      (CallSid (body0\<lparr>CallStatus := ''failed''\<rparr>))
     = Some (call0\<lparr>call.status := Completed, callSid := Some ''CA1''\<rparr>)
   \<and> mapped_status (CallStatus (body0\<lparr>CallStatus := ''failed''\<rparr>)) = Some Failed
   \<and> map_option call.status
        (BroadcastCall_findById
           (calls (snd (handleCallStatus (body0\<lparr>CallStatus := ''failed''\<rparr>) None 20
              (db0\<lparr>calls := [call0\<lparr>call.status := Completed, callSid := Some ''CA1''\<rparr>]\<rparr>))))
           7) = Some Failed"
proof -
  let ?c = "call0\<lparr>call.status := Completed, callSid := Some ''CA1''\<rparr>"
  let ?s = "db0\<lparr>calls := [?c]\<rparr>"
  let ?b = "body0\<lparr>CallStatus := ''failed''\<rparr>"
  have f: "findOne_callSid (calls ?s) (CallSid ?b) = Some ?c"
    by (simp add: findOne_callSid_def body0_def)
  have m: "mapped_status (CallStatus ?b) = Some Failed"
    by (simp add: mapped_status_def statusMap_def)
  have i: "cid ?c = 7" by (simp add: call0_def)
  from status_updates_unguarded [of "''CA1''" 20 ?c ?s ?b Failed None] f m i
  show ?thesis by simp
qed

section \<open>Campaign aggregates\<close>

lemma fold_statMap:
  "fold (\<lambda>r m. m(fst r \<mapsto> snd r)) (map (\<lambda>k. (k, f k)) ks) m k
     = (if k \<in> set ks then Some (f k) else m k)"
  by (induction ks arbitrary: m) auto

lemma stat_count:
  "or0 (statMap_of (aggregate i cs) st)
     = length (filter (\<lambda>c. call.status c = st) (filter (\<lambda>c. call.broadcast c = i) cs))"
proof -
  let ?m = "filter (\<lambda>c. call.broadcast c = i) cs"
  show ?thesis
  proof (cases "st \<in> set (map call.status ?m)")
    case True
    then show ?thesis
      by (simp add: statMap_of_def aggregate_def Let_def fold_statMap or0_def)
  next
    case False
    then have "filter (\<lambda>c. call.status c = st) ?m = []"
      by (auto simp: filter_empty_conv)
    with False show ?thesis
      by (simp add: statMap_of_def aggregate_def Let_def fold_statMap or0_def)
  qed
qed

lemma six_partition:
  "\<forall>c\<in>set xs. call.status c \<in> {Queued, Calling, Answered, Completed, Failed, OptedOut} \<Longrightarrow>
   length (filter (\<lambda>c. call.status c = Queued) xs)
   + length (filter (\<lambda>c. call.status c = Calling) xs)
   + length (filter (\<lambda>c. call.status c = Answered) xs)
   + length (filter (\<lambda>c. call.status c = Completed) xs)
   + length (filter (\<lambda>c. call.status c = Failed) xs)
   + length (filter (\<lambda>c. call.status c = OptedOut) xs) = length xs"
  by (induction xs) auto

lemma no_optedOut:
  "\<forall>c\<in>set xs. call.status c \<in> {Queued, Calling, Answered, Completed, Failed} \<Longrightarrow>
   length (filter (\<lambda>c. call.status c = OptedOut) xs) = 0"
  by (induction xs) auto

text \<open>
  Claim C3, as stated, fails: for a campaign at rest whose only call is \<^verbatim>\<open>cancelled\<close>,
  \<^verbatim>\<open>updateBroadcastStats\<close> gives six aggregates that sum to 0 while \<^verbatim>\<open>stats.total\<close> is 1
  (the stats have no bucket for \<^verbatim>\<open>cancelled\<close>, \<^verbatim>\<open>ringing\<close>, \<^verbatim>\<open>in_progress\<close>, \<^verbatim>\<open>busy\<close> and
  \<^verbatim>\<open>no_answer\<close>).
\<close>

theorem stats_sum_cancelled_counterexample:
  "total (stats campaign0) = length [call0\<lparr>call.status := Cancelled\<rparr>]
   \<and> stats_sum (stats (updateBroadcastStats campaign0 [call0\<lparr>call.status := Cancelled\<rparr>])) = 0
   \<and> total (stats (updateBroadcastStats campaign0 [call0\<lparr>call.status := Cancelled\<rparr>])) = 1"
  by (simp add: campaign0_def call0_def updateBroadcastStats_def stats_sum_def statMap_of_def
      aggregate_def or0_def Let_def)

text \<open>
  Claim C3, amended. For a campaign whose \<^verbatim>\<open>stats.total\<close> is the number of its calls:
  when every call of the campaign has one of the statuses queued, calling, answered,
  completed, failed and opted\_out, the recomputation of \<^verbatim>\<open>getBroadcastStatus\<close> keeps the
  total and gives six aggregates that sum to it; when every call has one of the statuses
  queued, calling, answered, completed and failed, the recomputation of
  \<^verbatim>\<open>updateBroadcastStats\<close> gives aggregates that sum to the total.
\<close>

theorem recomputed_stats_sum:
  assumes found: "Broadcast_findById (broadcasts s) i = Some b"
    and tot: "total (stats b) = length (filter (\<lambda>c. call.broadcast c = i) (calls s))"
  shows "((\<forall>c\<in>set (calls s). call.broadcast c = i \<longrightarrow>
             call.status c \<in> {Queued, Calling, Answered, Completed, Failed, OptedOut})
          \<longrightarrow> (\<exists>b' s'. getBroadcastStatus i s = Inr (b', s')
                \<and> stats_sum (stats b') = total (stats b')
                \<and> total (stats b') = total (stats b)))
       \<and> ((\<forall>c\<in>set (calls s). call.broadcast c = i \<longrightarrow>
             call.status c \<in> {Queued, Calling, Answered, Completed, Failed})
          \<longrightarrow> stats_sum (stats (updateBroadcastStats b (calls s)))
                = total (stats (updateBroadcastStats b (calls s))))"
proof -
  let ?m = "filter (\<lambda>c. call.broadcast c = i) (calls s)"
  from find_broadcast_bid [OF found] have bi: "bid b = i" by simp
  have A: "\<exists>b' s'. getBroadcastStatus i s = Inr (b', s')
                \<and> stats_sum (stats b') = total (stats b')
                \<and> total (stats b') = total (stats b)"
    if h: "\<forall>c\<in>set (calls s). call.broadcast c = i \<longrightarrow>
             call.status c \<in> {Queued, Calling, Answered, Completed, Failed, OptedOut}"
  proof -
    from h have "\<forall>c\<in>set ?m. call.status c \<in> {Queued, Calling, Answered, Completed, Failed, OptedOut}"
      by auto
    from six_partition [OF this] show ?thesis
      using found tot bi by (simp add: getBroadcastStatus_def Let_def stats_sum_def stat_count)
  qed
  have B: "stats_sum (stats (updateBroadcastStats b (calls s)))
                = total (stats (updateBroadcastStats b (calls s)))"
    if h: "\<forall>c\<in>set (calls s). call.broadcast c = i \<longrightarrow>
             call.status c \<in> {Queued, Calling, Answered, Completed, Failed}"
  proof -
    from h have five: "\<forall>c\<in>set ?m. call.status c \<in> {Queued, Calling, Answered, Completed, Failed}"
      by auto
    then have "\<forall>c\<in>set ?m. call.status c \<in> {Queued, Calling, Answered, Completed, Failed, OptedOut}"
      by auto
    from six_partition [OF this] no_optedOut [OF five] show ?thesis
      using tot bi by (simp add: updateBroadcastStats_def Let_def stats_sum_def stat_count)
  qed
  from A B show ?thesis by blast
qed

theorem recomputed_stats_sum_witness:
  "Broadcast_findById (broadcasts (db0\<lparr>calls := [call0\<lparr>call.status := Completed\<rparr>]\<rparr>)) 1
     = Some campaign0
   \<and> total (stats campaign0) = length [call0\<lparr>call.status := Completed\<rparr>]
   \<and> call.status (call0\<lparr>call.status := Completed\<rparr>) = Completed
   \<and> stats_sum (stats (fst (projr (getBroadcastStatus 1
                                      (db0\<lparr>calls := [call0\<lparr>call.status := Completed\<rparr>]\<rparr>))))) = 1
   \<and> stats_sum (stats (updateBroadcastStats campaign0 [call0\<lparr>call.status := Completed\<rparr>])) = 1"
proof -
  let ?s = "db0\<lparr>calls := [call0\<lparr>call.status := Completed\<rparr>]\<rparr>"
  have f: "Broadcast_findById (broadcasts ?s) 1 = Some campaign0"
    by (simp add: db0_def Broadcast_findById_def campaign0_def)
  have t: "total (stats campaign0) = length (filter (\<lambda>c. call.broadcast c = 1) (calls ?s))"
    by (simp add: campaign0_def call0_def)
  have h5: "\<forall>c\<in>set (calls ?s). call.broadcast c = 1 \<longrightarrow>
             call.status c \<in> {Queued, Calling, Answered, Completed, Failed}"
    by simp
  then have h6: "\<forall>c\<in>set (calls ?s). call.broadcast c = 1 \<longrightarrow>
             call.status c \<in> {Queued, Calling, Answered, Completed, Failed, OptedOut}"
    by simp
  have t1: "total (stats campaign0) = 1" by (simp add: campaign0_def)
  have u: "total (stats (updateBroadcastStats campaign0 [call0\<lparr>call.status := Completed\<rparr>])) = 1"
    by (simp add: updateBroadcastStats_def Let_def campaign0_def)
  from recomputed_stats_sum [OF f t] h5 h6
  obtain b' s' where g: "getBroadcastStatus 1 ?s = Inr (b', s')"
    and sm: "stats_sum (stats b') = total (stats b')" and tt: "total (stats b') = total (stats campaign0)"
    and up: "stats_sum (stats (updateBroadcastStats campaign0 (calls ?s)))
              = total (stats (updateBroadcastStats campaign0 (calls ?s)))"
    by blast
  from g sm tt t1 have "stats_sum (stats (fst (projr (getBroadcastStatus 1 ?s)))) = 1"
    by simp
  moreover from up u have
    "stats_sum (stats (updateBroadcastStats campaign0 [call0\<lparr>call.status := Completed\<rparr>])) = 1"
    by simp
  ultimately show ?thesis using f t1 by simp
qed

section \<open>Selecting the batch\<close>

lemma limit_set: "set (limit n xs) \<subseteq> set xs"
  by (auto simp: limit_def dest: in_set_takeD)

text \<open>
  Claim C4, as stated, fails: a queued call with \<open>attempts = 0\<close> whose \<^verbatim>\<open>retryAfter\<close> has
  passed (the state a rejected dial leaves) is returned by \<^verbatim>\<open>getRetryableCalls\<close>, although
  the claim asks for \<open>attempts > 0\<close>.
\<close>

theorem getRetryableCalls_attempts_zero_counterexample:
  "getRetryableCalls 1 30 [call0\<lparr>retryAfter := Some 10\<rparr>] = [call0\<lparr>retryAfter := Some 10\<rparr>]
   \<and> \<not> (attempts (call0\<lparr>retryAfter := Some 10\<rparr>) > 0)"
  by (simp add: getRetryableCalls_def limit_def retryable_def call0_def)

text \<open>
  Claim C4, amended. For a campaign with the default \<^verbatim>\<open>config.maxRetries\<close> (2), the query
  returns at most 50 calls, each a call of the campaign with status queued,
  \<open>attempts < maxRetries\<close> and a \<^verbatim>\<open>retryAfter\<close> that is set and not after \<open>now\<close>; it returns
  all such calls when there are at most 50. No lower bound on \<open>attempts\<close> and no ordering
  by \<^verbatim>\<open>retryAfter\<close> is part of the query. The batch is the fresh calls followed by a prefix of
  the query's result of length at most the limit minus the number of fresh calls.
\<close>

theorem getRetryableCalls_default_config:
  assumes "maxRetries (config b) = schema_default_maxRetries"
  shows "set (getRetryableCalls (bid b) now cs)
           \<subseteq> {c \<in> set cs. call.broadcast c = bid b \<and> call.status c = Queued
                  \<and> int (attempts c) < maxRetries (config b)
                  \<and> (\<exists>t. retryAfter c = Some t \<and> t \<le> now)}
       \<and> length (getRetryableCalls (bid b) now cs) \<le> 50
       \<and> (length (filter (retryable (bid b) now) cs) \<le> 50 \<longrightarrow>
            set (getRetryableCalls (bid b) now cs)
              = {c \<in> set cs. call.broadcast c = bid b \<and> call.status c = Queued
                  \<and> int (attempts c) < maxRetries (config b)
                  \<and> (\<exists>t. retryAfter c = Some t \<and> t \<le> now)})
       \<and> (\<exists>r. getNextCalls (bid b) lim now cs = limit lim (filter (fresh (bid b)) cs) @ r
              \<and> r = take (length r) (getRetryableCalls (bid b) now cs)
              \<and> length r \<le> lim - length (limit lim (filter (fresh (bid b)) cs)))"
proof -
  let ?S = "{c \<in> set cs. call.broadcast c = bid b \<and> call.status c = Queued
                  \<and> int (attempts c) < maxRetries (config b)
                  \<and> (\<exists>t. retryAfter c = Some t \<and> t \<le> now)}"
  have S: "set (filter (retryable (bid b) now) cs) = ?S"
    using assms by (auto simp: retryable_def schema_default_maxRetries_def split: option.splits)
  have 1: "set (getRetryableCalls (bid b) now cs) \<subseteq> ?S"
    using limit_set [of 50 "filter (retryable (bid b) now) cs"] S
    by (simp add: getRetryableCalls_def)
  have 2: "length (getRetryableCalls (bid b) now cs) \<le> 50"
    by (simp add: getRetryableCalls_def limit_def)
  have 3: "set (getRetryableCalls (bid b) now cs) = ?S"
    if "length (filter (retryable (bid b) now) cs) \<le> 50"
    using that S by (simp add: getRetryableCalls_def limit_def)
  have 4: "\<exists>r. getNextCalls (bid b) lim now cs = limit lim (filter (fresh (bid b)) cs) @ r
              \<and> r = take (length r) (getRetryableCalls (bid b) now cs)
              \<and> length r \<le> lim - length (limit lim (filter (fresh (bid b)) cs))"
  proof (cases "length (limit lim (filter (fresh (bid b)) cs)) \<ge> lim")
    case True
    then show ?thesis by (simp add: getNextCalls_def Let_def)
  next
    case False
    let ?r = "take (lim - length (limit lim (filter (fresh (bid b)) cs)))
                (getRetryableCalls (bid b) now cs)"
    have "getNextCalls (bid b) lim now cs = limit lim (filter (fresh (bid b)) cs) @ ?r"
      using False by (simp add: getNextCalls_def Let_def)
    moreover have "?r = take (length ?r) (getRetryableCalls (bid b) now cs)"
      by (simp add: min_def)
    moreover have "length ?r \<le> lim - length (limit lim (filter (fresh (bid b)) cs))"
      by simp
    ultimately show ?thesis by blast
  qed
  from 1 2 3 4 show ?thesis by blast
qed

theorem getRetryableCalls_default_config_witness:
  "maxRetries (config campaign0) = schema_default_maxRetries
   \<and> set (getRetryableCalls (bid campaign0) 30 [call0\<lparr>retryAfter := Some 10, attempts := 1\<rparr>])
       = {call0\<lparr>retryAfter := Some 10, attempts := 1\<rparr>}
   \<and> getNextCalls (bid campaign0) 5 30 [call0\<lparr>retryAfter := Some 10, attempts := 1\<rparr>]
       = [call0\<lparr>retryAfter := Some 10, attempts := 1\<rparr>]"
proof -
  have d: "maxRetries (config campaign0) = schema_default_maxRetries"
    by (simp add: campaign0_def schema_default_maxRetries_def)
  let ?c = "call0\<lparr>retryAfter := Some 10, attempts := 1\<rparr>"
  have l: "length (filter (retryable (bid campaign0) 30) [?c]) \<le> 50" by simp
  have e: "{c \<in> set [?c]. call.broadcast c = bid campaign0 \<and> call.status c = Queued
                  \<and> int (attempts c) < maxRetries (config campaign0)
                  \<and> (\<exists>t. retryAfter c = Some t \<and> t \<le> 30)} = {?c}"
    by (auto simp: campaign0_def call0_def)
  have n: "getNextCalls (bid campaign0) 5 30 [?c] = [?c]"
    by (simp add: getNextCalls_def getRetryableCalls_def limit_def fresh_def retryable_def
        campaign0_def call0_def Let_def)
  from getRetryableCalls_default_config [OF d, of 30 "[?c]" 5] l e n d
  show ?thesis by simp
qed

section \<open>The opt-out check of the dial pipeline\<close>

text \<open>
  Claim C5. The claim: a call is marked opted out, and not dialed, only when the store
  holds a record for its phone with \<open>expiresAt > now\<close>, and a phone with only an expired
  record is dialed. The pipeline's \<^verbatim>\<open>_isOptedOut\<close> asks for any record of the phone
  and does not look at \<^verbatim>\<open>expiresAt\<close>, unlike the static \<^verbatim>\<open>OptOut.isOptedOut\<close> of the
  opt-out schema, which the pipeline does not call: at time
  10, with a record that expired at time 5, \<^verbatim>\<open>OptOut.isOptedOut\<close> is false, yet the call is
  marked \<^verbatim>\<open>opted_out\<close> and no dial request is made.
\<close>

theorem expired_optOut_blocks_dial:
  "\<not> OptOut_isOptedOut ''+15559'' 10 [expired_optOut]
   \<and> contact.phone (contact call0) = ''+15559''
   \<and> map call.status
        (calls (snd (initiateCall twilio_ok None 10 7
                       (campaign0, db0\<lparr>optOuts := [expired_optOut]\<rparr>)))) = [OptedOut]
   \<and> dialRequests (snd (initiateCall twilio_ok None 10 7
                       (campaign0, db0\<lparr>optOuts := [expired_optOut]\<rparr>))) = []"
  by (simp add: OptOut_isOptedOut_def expired_optOut_def call0_def initiateCall_def db0_def
      BroadcastCall_findById_def campaign0_def checkDND_def isOptedOut_def markOptedOut_def
      incrementStat_saved_def BroadcastCall_save_def Let_def)

section \<open>The dispatch tick\<close>

lemma incrementStat_keeps:
  "bid (incrementStat k b) = bid b" "broadcast.status (incrementStat k b) = broadcast.status b"
  "config (incrementStat k b) = config b"
  by (cases k; simp)+

lemma incrementStat_saved_keeps_status:
  assumes "bid b = i" and "broadcast.status b = st" and "campaign_status s i = Some st"
  shows "bid (fst (incrementStat_saved e key now k b s)) = i
         \<and> broadcast.status (fst (incrementStat_saved e key now k b s)) = st
         \<and> campaign_status (snd (incrementStat_saved e key now k b s)) i = Some st"
  using assms
  by (auto simp: incrementStat_saved_def Let_def campaign_status_save campaign_status_catch
      incrementStat_keeps split: option.splits)

lemma initiateCall_keeps_status:
  assumes "bid b = i" and "broadcast.status b = st" and "campaign_status s i = Some st"
  shows "bid (fst (initiateCall tw e now k (b, s))) = i
         \<and> broadcast.status (fst (initiateCall tw e now k (b, s))) = st
         \<and> campaign_status (snd (initiateCall tw e now k (b, s))) i = Some st"
proof -
  have frame: "campaign_status (s\<lparr>calls := cs\<rparr>) i = Some st"
    "campaign_status (s\<lparr>dialRequests := ds, calls := cs\<rparr>) i = Some st"
    "campaign_status (s\<lparr>dialRequests := ds\<rparr>) i = Some st" for cs ds
    using assms(3) by (simp_all add: campaign_status_def)
  show ?thesis
    using assms incrementStat_saved_keeps_status [OF assms(1,2) frame(1)]
      incrementStat_saved_keeps_status [OF assms(1,2) frame(2)] frame(3)
    by (auto simp: initiateCall_def Let_def campaign_status_catch
        split: option.splits sum.splits)
qed

text \<open>
  A dial that the provider accepted, whose \<^verbatim>\<open>incrementStat\<close> is rejected because another
  dial of the batch is saving the campaign: the \<^verbatim>\<open>catch\<close> block queues the dialed call
  for a retry.
\<close>

lemma rejected_save_requeues_dialed_call:
  "initiateCall twilio_ok (Some ''ParallelSaveError'') 10 7 (campaign0, db0)
     = (incrementStat SCalling campaign0,
        db0\<lparr>dialRequests := [7],
            calls := [call_calling\<lparr>call.status := Queued, endTime := Some 10,
                                   twilioError := Some (500, ''ParallelSaveError''),
                                   retryAfter := Some 30010\<rparr>]\<rparr>)"
  by (simp add: initiateCall_def incrementStat_saved_def catch_markFailed_def twilio_ok_def
      campaign0_def db0_def call_calling_def call0_def markCalling_def
      BroadcastCall_findById_def checkDND_def isOptedOut_def markFailed_def num_or_def
      retryDelay_of_def Broadcast_findById_def BroadcastCall_save_def Let_def)

lemma fold_initiateCall_keeps_status:
  assumes "bid (fst x) = i" and "broadcast.status (fst x) = st"
    and "campaign_status (snd x) i = Some st"
  shows "campaign_status
           (snd (fold (\<lambda>kc. initiateCall tw (f kc) now (g kc)) ks x)) i = Some st"
  using assms
proof (induction ks arbitrary: x)
  case Nil
  then show ?case by simp
next
  case (Cons k ks)
  obtain b s where x: "x = (b, s)" by (cases x)
  from Cons.prems x initiateCall_keeps_status [of b i st s tw "f k" now "g k"]
  have "bid (fst (initiateCall tw (f k) now (g k) x)) = i"
    "broadcast.status (fst (initiateCall tw (f k) now (g k) x)) = st"
    "campaign_status (snd (initiateCall tw (f k) now (g k) x)) i = Some st"
    by simp_all
  from Cons.IH [OF this] show ?case by simp
qed

lemma allSettled_keeps_status:
  assumes "bid b = i" and "broadcast.status b = st" and "campaign_status s i = Some st"
  shows "campaign_status (snd (allSettled tw clash now batch (b, s))) i = Some st"
  unfolding allSettled_def
  by (rule fold_initiateCall_keeps_status) (use assms in simp_all)

lemma availableSlots_cong:
  "config b = config b' \<Longrightarrow> availableSlots b i cs = availableSlots b' i cs"
  by (simp add: availableSlots_def)

lemma updateStatus_keeps:
  "bid (updateStatus st now b) = bid b" "config (updateStatus st now b) = config b"
  "broadcast.status (updateStatus st now b) = st"
  by (simp_all add: updateStatus_def Let_def)

lemma stopBroadcast_simps:
  "broadcasts (stopBroadcast k s) = broadcasts s" "calls (stopBroadcast k s) = calls s"
  "k \<notin> activeBroadcasts (stopBroadcast k s)"
  "campaign_status (stopBroadcast k s) j = campaign_status s j"
  by (simp_all add: stopBroadcast_def campaign_status_def)

text \<open>The campaign and the state of a tick after the transition to \<^verbatim>\<open>in_progress\<close>.\<close>

lemma tick_prefix:
  fixes now :: date
  assumes found: "Broadcast_findById (broadcasts s) i = Some b0"
    and live: "broadcast.status b0 \<noteq> BCompleted" "broadcast.status b0 \<noteq> BCancelled"
  defines "b \<equiv> (if broadcast.status b0 = BQueued then updateStatus BInProgress now b0 else b0)"
  defines "s1 \<equiv> (if broadcast.status b0 = BQueued
                   then s\<lparr>broadcasts := Broadcast_save b (broadcasts s)\<rparr> else s)"
  shows "bid b = i" "broadcast.status b \<noteq> BCompleted" "calls s1 = calls s"
    "campaign_status s1 i = Some (broadcast.status b)" "config b = config b0"
    "activeBroadcasts s1 = activeBroadcasts s"
    "Broadcast_findById (broadcasts s1) i \<noteq> None"
proof -
  from find_broadcast_bid [OF found] have bi: "bid b0 = i" by simp
  show "bid b = i" using bi by (simp add: b_def updateStatus_keeps)
  show "broadcast.status b \<noteq> BCompleted" using live by (simp add: b_def updateStatus_keeps)
  show "calls s1 = calls s" by (simp add: s1_def)
  show "config b = config b0" by (simp add: b_def updateStatus_keeps)
  show "activeBroadcasts s1 = activeBroadcasts s" by (simp add: s1_def)
  have bb: "bid b = i" using bi by (simp add: b_def updateStatus_keeps)
  show cs: "campaign_status s1 i = Some (broadcast.status b)"
    using found campaign_status_save [OF bb, of s]
    by (auto simp: s1_def campaign_status_def b_def)
  then show "Broadcast_findById (broadcasts s1) i \<noteq> None"
    by (auto simp: campaign_status_def)
qed

text \<open>
  What the tick's own count decides. For a tick that finds the campaign: when the campaign
  is neither completed nor cancelled, slots are available and the selected batch is empty,
  the tick leaves the campaign completed and without its ticker if and only if no call of
  the campaign has the status queued, calling, ringing or in\_progress; a tick that sees a
  call in one of these four statuses never completes a campaign that was not completed,
  whatever its batch and whatever saves are rejected; and a tick on a completed campaign
  changes neither the campaigns nor the calls.
\<close>

lemma tick_completes_iff_none_pending:
  assumes found: "Broadcast_findById (broadcasts s) (id_of k) = Some b0"
  shows "(broadcast.status b0 \<notin> {BCompleted, BCancelled}
          \<and> 0 < availableSlots b0 (id_of k) (calls s)
          \<and> getNextCalls (id_of k) (nat (availableSlots b0 (id_of k) (calls s))) now (calls s) = []
          \<longrightarrow> ((campaign_status (processBroadcastQueue tw clash now k s) (id_of k) = Some BCompleted
                 \<and> k \<notin> activeBroadcasts (processBroadcastQueue tw clash now k s))
                \<longleftrightarrow> pendingCalls (id_of k) (calls s) = 0))
       \<and> (broadcast.status b0 \<noteq> BCompleted \<and> pendingCalls (id_of k) (calls s) > 0
          \<longrightarrow> campaign_status (processBroadcastQueue tw clash now k s) (id_of k) \<noteq> Some BCompleted)
       \<and> (broadcast.status b0 = BCompleted
          \<longrightarrow> broadcasts (processBroadcastQueue tw clash now k s) = broadcasts s
              \<and> calls (processBroadcastQueue tw clash now k s) = calls s
              \<and> k \<notin> activeBroadcasts (processBroadcastQueue tw clash now k s))"
proof -
  let ?i = "id_of k"
  let ?b = "if broadcast.status b0 = BQueued then updateStatus BInProgress now b0 else b0"
  let ?s1 = "if broadcast.status b0 = BQueued
             then s\<lparr>broadcasts := Broadcast_save ?b (broadcasts s)\<rparr> else s"
  let ?t = "processBroadcastQueue tw clash now k s"
  have C: "broadcasts ?t = broadcasts s \<and> calls ?t = calls s \<and> k \<notin> activeBroadcasts ?t"
    if "broadcast.status b0 = BCompleted"
    using found that by (simp add: processBroadcastQueue_def stopBroadcast_simps)
  have A: "(campaign_status ?t ?i = Some BCompleted \<and> k \<notin> activeBroadcasts ?t)
           \<longleftrightarrow> pendingCalls ?i (calls s) = 0"
    if live: "broadcast.status b0 \<notin> {BCompleted, BCancelled}"
      and slots: "0 < availableSlots b0 ?i (calls s)"
      and empty: "getNextCalls ?i (nat (availableSlots b0 ?i (calls s))) now (calls s) = []"
  proof -
    from live have l: "broadcast.status b0 \<noteq> BCompleted" "broadcast.status b0 \<noteq> BCancelled"
      by auto
    note p = tick_prefix [OF found l, of now]
    have av: "availableSlots ?b ?i (calls ?s1) = availableSlots b0 ?i (calls s)"
      using p(3) availableSlots_cong [OF p(5)] by simp
    show ?thesis
    proof (cases "pendingCalls ?i (calls s) = 0")
      case True
      have t: "?t = stopBroadcast k
                 (?s1\<lparr>broadcasts := Broadcast_save (updateStatus BCompleted now ?b) (broadcasts ?s1)\<rparr>)"
        using found l slots empty True av p(3)
        by (simp add: processBroadcastQueue_def Let_def)
      have "bid (updateStatus BCompleted now ?b) = ?i"
        using p(1) by (simp add: updateStatus_keeps)
      from campaign_status_save [OF this, of ?s1] p(4)
      have "campaign_status ?t ?i = Some BCompleted"
        by (simp add: t stopBroadcast_simps updateStatus_keeps)
      moreover have "k \<notin> activeBroadcasts ?t"
        by (simp add: t stopBroadcast_simps)
      ultimately show ?thesis using True by simp
    next
      case False
      have t: "?t = ?s1"
        using found l slots empty False av p(3)
        by (simp add: processBroadcastQueue_def Let_def)
      have "campaign_status ?t ?i \<noteq> Some BCompleted"
        using p(2) p(4) by (simp add: t)
      then show ?thesis using False by simp
    qed
  qed
  have B: "campaign_status ?t ?i \<noteq> Some BCompleted"
    if nc: "broadcast.status b0 \<noteq> BCompleted" and pend: "pendingCalls ?i (calls s) > 0"
  proof (cases "broadcast.status b0 = BCancelled")
    case True
    then show ?thesis
      using found by (simp add: processBroadcastQueue_def stopBroadcast_simps campaign_status_def)
  next
    case False
    note p = tick_prefix [OF found nc False, of now]
    let ?slots = "availableSlots ?b ?i (calls ?s1)"
    let ?batch = "getNextCalls ?i (nat ?slots) now (calls ?s1)"
    have s1: "campaign_status ?s1 ?i \<noteq> Some BCompleted"
      using p(2) p(4) by simp
    consider "?slots \<le> 0" | "0 < ?slots" "?batch = []" | "0 < ?slots" "?batch \<noteq> []"
      by linarith
    then show ?thesis
    proof cases
      case 1
      then have "?t = ?s1"
        using found nc False by (simp add: processBroadcastQueue_def Let_def)
      with s1 show ?thesis by simp
    next
      case 2
      then have "?t = ?s1"
        using found nc False pend p(3) by (simp add: processBroadcastQueue_def Let_def)
      with s1 show ?thesis by simp
    next
      case 3
      then have t: "?t = snd (allSettled tw clash now ?batch (?b, ?s1))"
        using found nc False by (simp add: processBroadcastQueue_def Let_def)
      have "campaign_status (snd (allSettled tw clash now ?batch (?b, ?s1))) ?i
              = Some (broadcast.status ?b)"
        by (rule allSettled_keeps_status) (use p in simp_all)
      with p(2) show ?thesis by (simp add: t)
    qed
  qed
  from A B C show ?thesis by blast
qed

text \<open>
  Claim C6. The claim: a tick with an empty batch completes the campaign, and stops its
  ticker, only when no call is in flight, so that the campaign is completed only once the
  population is drained. The tick counts the calls with status queued, calling, ringing and
  in\_progress. The status webhook stores \<^verbatim>\<open>answered\<close> for the provider status
  \<^verbatim>\<open>in-progress\<close>, no code stores \<^verbatim>\<open>in_progress\<close>, and \<^verbatim>\<open>answered\<close> is not counted: once
  the webhook has reported the only call of the campaign as in progress, with the callee on
  the line, the next tick finds an empty batch and a count of 0, completes the campaign and
  removes its ticker, while the call still has the status \<^verbatim>\<open>answered\<close>.
\<close>

theorem tick_completes_campaign_with_live_call:
  "handleCallStatus body_in_progress (Some 7) 20 db_calling = (200, db_answered)
   \<and> map call.status (calls db_answered) = [Answered]
   \<and> campaign_status db_answered 1 = Some BInProgress
   \<and> IdObject 1 \<in> activeBroadcasts db_answered
   \<and> pendingCalls 1 (calls db_answered) = 0
   \<and> campaign_status (processBroadcastQueue twilio_ok no_clash 30 (IdObject 1) db_answered) 1
       = Some BCompleted
   \<and> IdObject 1 \<notin> activeBroadcasts
                     (processBroadcastQueue twilio_ok no_clash 30 (IdObject 1) db_answered)
   \<and> map call.status
        (calls (processBroadcastQueue twilio_ok no_clash 30 (IdObject 1) db_answered))
       = [Answered]"
proof -
  have h: "handleCallStatus body_in_progress (Some 7) 20 db_calling = (200, db_answered)"
    by (simp add: handleCallStatus_def lookup_call_def body_in_progress_def db_calling_def
        db_answered_def campaign_answered_def call_calling_def markCalling_def call0_def db0_def
        campaign0_def findOne_callSid_def
        mapped_status_def statusMap_def apply_status_def truthy_def BroadcastCall_save_def
        Broadcast_findById_def Broadcast_save_def updateBroadcastStats_def statMap_of_def
        aggregate_def or0_def Let_def)
  have f: "Broadcast_findById (broadcasts db_answered) (id_of (IdObject 1))
             = Some campaign_answered"
    by (simp add: db_answered_def Broadcast_findById_def campaign_answered_def campaign0_def)
  have cs: "calls db_answered = [call_calling\<lparr>call.status := Answered\<rparr>]"
    by (simp add: db_answered_def)
  have p: "pendingCalls 1 (calls db_answered) = 0"
    by (simp add: cs pendingCalls_def countDocuments_def)
  have av: "availableSlots campaign_answered 1 (calls db_answered) = 50"
    by (simp add: cs availableSlots_def num_or_def activeCalls_def countDocuments_def
        campaign_answered_def campaign0_def)
  have batch: "getNextCalls 1 50 30 (calls db_answered) = []"
    by (simp add: cs getNextCalls_def getRetryableCalls_def limit_def fresh_def retryable_def
        Let_def)
  have live: "broadcast.status campaign_answered \<notin> {BCompleted, BCancelled}"
    by (simp add: campaign_answered_def campaign0_def)
  have c: "campaign_status db_answered 1 = Some BInProgress"
    by (simp add: campaign_status_def db_answered_def Broadcast_findById_def
        campaign_answered_def campaign0_def)
  have a: "IdObject 1 \<in> activeBroadcasts db_answered"
    by (simp add: db_answered_def db0_def)
  have t: "campaign_status (processBroadcastQueue twilio_ok no_clash 30 (IdObject 1) db_answered) 1
             = Some BCompleted
           \<and> IdObject 1 \<notin> activeBroadcasts
                 (processBroadcastQueue twilio_ok no_clash 30 (IdObject 1) db_answered)"
    using tick_completes_iff_none_pending [OF f, of 30 twilio_ok no_clash] live av batch p
    by simp
  have k: "calls (processBroadcastQueue twilio_ok no_clash 30 (IdObject 1) db_answered)
             = calls db_answered"
  proof -
    have st: "broadcast.status campaign_answered = BInProgress"
      by (simp add: campaign_answered_def campaign0_def)
    show ?thesis
      using f st av batch p
      by (simp add: processBroadcastQueue_def Let_def stopBroadcast_simps)
  qed
  from h p c a t k cs show ?thesis by simp
qed

section \<open>The lookup of the status webhook\<close>

lemma lookup_call_ids: "map cid (calls (snd (lookup_call body callId s))) = map cid (calls s)"
  by (auto simp: lookup_call_def Let_def save_keeps_ids split: option.splits)

lemma handleCallStatus_ids:
  "map cid (calls (snd (handleCallStatus body callId now s))) = map cid (calls s)"
proof -
  obtain co s1 where l: "lookup_call body callId s = (co, s1)" by (cases "lookup_call body callId s")
  with lookup_call_ids [of body callId s] have "map cid (calls s1) = map cid (calls s)" by simp
  with l show ?thesis
    by (auto simp: handleCallStatus_def Let_def save_keeps_ids split: option.splits)
qed

lemma handleCallStatus_keeps_callSid:
  assumes l: "lookup_call body callId s = (Some c, s1)"
    and f: "BroadcastCall_findById (calls s1) (cid c) = Some c"
  shows "map_option callSid
           (BroadcastCall_findById (calls (snd (handleCallStatus body callId now s))) (cid c))
         = Some (callSid c)"
proof (cases "mapped_status (CallStatus body)")
  case None
  with l f show ?thesis by (simp add: handleCallStatus_def)
next
  case (Some st)
  let ?c' = "apply_status body now st c"
  from find_call_cid [OF f] have "\<exists>x\<in>set (calls s1). cid x = cid ?c'"
    by (auto simp: apply_status_cid)
  from find_save_call [OF this]
  have "BroadcastCall_findById (BroadcastCall_save ?c' (calls s1)) (cid c) = Some ?c'"
    by (simp add: apply_status_cid)
  with l Some show ?thesis
    by (simp add: handleCallStatus_def Let_def apply_status_callSid split: option.splits)
qed

text \<open>
  Claim C7. The handler takes the call that has the SID of the request when there is one;
  otherwise it takes the call that has the id of the URL, and when that call has no SID
  yet, the SID of the request is stored on it; when neither lookup finds a call the answer
  is 404 and the state is unchanged, and only then is the answer 404. In every case the
  collection holds the same call ids, in the same order, after the request as before it:
  no call row is created.
\<close>

theorem handleCallStatus_resolves_call:
  "(\<forall>c. findOne_callSid (calls s) (CallSid body) = Some c
        \<longrightarrow> lookup_call body callId s = (Some c, s)
            \<and> fst (handleCallStatus body callId now s) \<noteq> 404)
   \<and> (findOne_callSid (calls s) (CallSid body) = None \<longrightarrow>
        (\<forall>i c. callId = Some i \<and> BroadcastCall_findById (calls s) i = Some c \<longrightarrow>
           fst (handleCallStatus body callId now s) \<noteq> 404
           \<and> (truthy (callSid c) \<longrightarrow> lookup_call body callId s = (Some c, s))
           \<and> (\<not> truthy (callSid c) \<longrightarrow>
                fst (lookup_call body callId s) = Some (c\<lparr>callSid := Some (CallSid body)\<rparr>)
                \<and> map_option callSid
                     (BroadcastCall_findById
                        (calls (snd (handleCallStatus body callId now s))) i)
                    = Some (Some (CallSid body))))
        \<and> ((callId = None \<or> (\<exists>i. callId = Some i \<and> BroadcastCall_findById (calls s) i = None))
            \<longrightarrow> handleCallStatus body callId now s = (404, s)))
   \<and> map cid (calls (snd (handleCallStatus body callId now s))) = map cid (calls s)"
proof -
  have not404: "fst (handleCallStatus body callId now s) \<noteq> 404"
    if "lookup_call body callId s = (Some c, s1)" for c s1
    using that by (simp add: handleCallStatus_def Let_def split: option.splits)
  have A: "lookup_call body callId s = (Some c, s)
            \<and> fst (handleCallStatus body callId now s) \<noteq> 404"
    if "findOne_callSid (calls s) (CallSid body) = Some c" for c
  proof -
    from that have "lookup_call body callId s = (Some c, s)" by (simp add: lookup_call_def)
    with not404 show ?thesis by simp
  qed
  have B: "fst (handleCallStatus body callId now s) \<noteq> 404
           \<and> (truthy (callSid c) \<longrightarrow> lookup_call body callId s = (Some c, s))
           \<and> (\<not> truthy (callSid c) \<longrightarrow>
                fst (lookup_call body callId s) = Some (c\<lparr>callSid := Some (CallSid body)\<rparr>)
                \<and> map_option callSid
                     (BroadcastCall_findById
                        (calls (snd (handleCallStatus body callId now s))) i)
                    = Some (Some (CallSid body)))"
    if n: "findOne_callSid (calls s) (CallSid body) = None"
      and i: "callId = Some i" and f: "BroadcastCall_findById (calls s) i = Some c" for i c
  proof (cases "truthy (callSid c)")
    case True
    with n i f have "lookup_call body callId s = (Some c, s)" by (simp add: lookup_call_def)
    with not404 True show ?thesis by simp
  next
    case False
    let ?c' = "c\<lparr>callSid := Some (CallSid body)\<rparr>"
    let ?s1 = "s\<lparr>calls := BroadcastCall_save ?c' (calls s)\<rparr>"
    from n i f False have l: "lookup_call body callId s = (Some ?c', ?s1)"
      by (simp add: lookup_call_def Let_def)
    from find_call_cid [OF f] have ci: "cid c = i" and "\<exists>x\<in>set (calls s). cid x = cid ?c'"
      by auto
    from find_save_call [OF this(2)]
    have "BroadcastCall_findById (calls ?s1) (cid ?c') = Some ?c'" by simp
    from handleCallStatus_keeps_callSid [OF l this, of now] ci not404 [OF l] l False
    show ?thesis by simp
  qed
  have C: "handleCallStatus body callId now s = (404, s)"
    if n: "findOne_callSid (calls s) (CallSid body) = None"
      and "callId = None \<or> (\<exists>i. callId = Some i \<and> BroadcastCall_findById (calls s) i = None)"
    using that by (auto simp: handleCallStatus_def lookup_call_def)
  from A B C handleCallStatus_ids [of body callId now s] show ?thesis by blast
qed

theorem handleCallStatus_resolves_call_witness:
  "findOne_callSid (calls db0) (CallSid body0) = None
   \<and> BroadcastCall_findById (calls db0) 7 = Some call0
   \<and> \<not> truthy (callSid call0)
   \<and> fst (handleCallStatus body0 (Some 7) 10 db0) \<noteq> 404
   \<and> map_option callSid
        (BroadcastCall_findById (calls (snd (handleCallStatus body0 (Some 7) 10 db0))) 7)
       = Some (Some ''CA1'')
   \<and> handleCallStatus body0 (Some 8) 10 db0 = (404, db0)
   \<and> findOne_callSid (calls (db0\<lparr>calls := [call0\<lparr>callSid := Some ''CA1''\<rparr>]\<rparr>)) (CallSid body0)
       = Some (call0\<lparr>callSid := Some ''CA1''\<rparr>)
   \<and> fst (handleCallStatus body0 (Some 8) 10 (db0\<lparr>calls := [call0\<lparr>callSid := Some ''CA1''\<rparr>]\<rparr>))
       \<noteq> 404"
proof -
  let ?s2 = "db0\<lparr>calls := [call0\<lparr>callSid := Some ''CA1''\<rparr>]\<rparr>"
  have n: "findOne_callSid (calls db0) (CallSid body0) = None"
    by (simp add: findOne_callSid_def db0_def call0_def)
  have f: "BroadcastCall_findById (calls db0) 7 = Some call0"
    by (simp add: BroadcastCall_findById_def db0_def call0_def)
  have g: "BroadcastCall_findById (calls db0) 8 = None"
    by (simp add: BroadcastCall_findById_def db0_def call0_def)
  have t: "\<not> truthy (callSid call0)" by (simp add: truthy_def call0_def)
  have b: "CallSid body0 = ''CA1''" by (simp add: body0_def)
  have h: "findOne_callSid (calls ?s2) (CallSid body0) = Some (call0\<lparr>callSid := Some ''CA1''\<rparr>)"
    by (simp add: findOne_callSid_def body0_def)
  from handleCallStatus_resolves_call [of db0 body0 "Some 7" 10]
    handleCallStatus_resolves_call [of db0 body0 "Some 8" 10]
    handleCallStatus_resolves_call [of ?s2 body0 "Some 8" 10]
    n f g t b h
  show ?thesis by simp
qed

section \<open>Cancelling a completed campaign\<close>

lemma updateMany_cancel_length: "length (updateMany_cancel i cs) = length cs"
  by (simp add: updateMany_cancel_def)

lemma updateMany_cancel_nth:
  "k < length cs \<Longrightarrow> call.status (cs ! k) \<noteq> Queued \<Longrightarrow> updateMany_cancel i cs ! k = cs ! k"
  by (simp add: updateMany_cancel_def)

text \<open>
  Claim C8, as stated, fails: cancelling the completed campaign returns successfully, but
  the campaign's status becomes \<^verbatim>\<open>cancelled\<close> and its \<^verbatim>\<open>completedAt\<close> is overwritten.
\<close>

theorem cancel_completed_counterexample:
  "broadcast.status campaign_done = BCompleted
   \<and> cancelBroadcast (IdString 1) 50 db_done
       = Inr (campaign_done\<lparr>broadcast.status := BCancelled, completedAt := Some 50\<rparr>,
              db_done\<lparr>broadcasts :=
                        [campaign_done\<lparr>broadcast.status := BCancelled, completedAt := Some 50\<rparr>]\<rparr>)
   \<and> campaign_done\<lparr>broadcast.status := BCancelled, completedAt := Some 50\<rparr> \<noteq> campaign_done"
proof -
  have "campaign_done\<lparr>broadcast.status := BCancelled, completedAt := Some 50\<rparr> \<noteq> campaign_done"
  proof
    assume "campaign_done\<lparr>broadcast.status := BCancelled, completedAt := Some 50\<rparr> = campaign_done"
    then have "broadcast.status (campaign_done\<lparr>broadcast.status := BCancelled, completedAt := Some 50\<rparr>)
               = broadcast.status campaign_done"
      by simp
    then show False by (simp add: campaign_done_def)
  qed
  then show ?thesis
    by (simp add: campaign_done_def db_done_def campaign0_def call0_def cancelBroadcast_def
        Broadcast_findById_def stopBroadcast_def updateMany_cancel_def updateStatus_def
        Broadcast_save_def Let_def)
qed

text \<open>
  Claim C8, amended. Cancelling a completed campaign returns successfully; the campaign's
  status becomes \<^verbatim>\<open>cancelled\<close> with \<^verbatim>\<open>completedAt\<close> set to the time of the request, and
  every call whose status is not \<^verbatim>\<open>queued\<close> is unchanged.
\<close>

theorem cancel_completed_sets_cancelled:
  assumes "Broadcast_findById (broadcasts s) (id_of k) = Some b"
    and "broadcast.status b = BCompleted"
  shows "\<exists>b' s'. cancelBroadcast k now s = Inr (b', s')
           \<and> broadcast.status b' = BCancelled \<and> completedAt b' = Some now
           \<and> campaign_status s' (id_of k) = Some BCancelled
           \<and> length (calls s') = length (calls s)
           \<and> (\<forall>n < length (calls s).
                 call.status (calls s ! n) \<noteq> Queued \<longrightarrow> calls s' ! n = calls s ! n)"
proof -
  let ?i = "id_of k"
  let ?b' = "updateStatus BCancelled now b"
  from find_broadcast_bid [OF assms(1)] have bi: "bid b = ?i" and mem: "b \<in> set (broadcasts s)"
    by auto
  have bb: "bid ?b' = ?i" using bi by (simp add: updateStatus_def Let_def)
  have "\<exists>x\<in>set (broadcasts s). bid x = bid ?b'" using mem bi bb by auto
  from find_save_broadcast [OF this]
  have fs: "Broadcast_findById (Broadcast_save ?b' (broadcasts s)) ?i = Some ?b'"
    using bb by simp
  have st: "broadcast.status ?b' = BCancelled" "completedAt ?b' = Some now"
    by (simp_all add: updateStatus_def Let_def)
  show ?thesis
    using assms(1) fs st
    by (simp add: cancelBroadcast_def Let_def stopBroadcast_def campaign_status_def
        updateMany_cancel_length updateMany_cancel_nth)
qed

theorem cancel_completed_sets_cancelled_witness:
  "Broadcast_findById (broadcasts db_done) (id_of (IdString 1)) = Some campaign_done
   \<and> broadcast.status campaign_done = BCompleted
   \<and> broadcast.status (fst (projr (cancelBroadcast (IdString 1) 50 db_done))) = BCancelled
   \<and> campaign_status (snd (projr (cancelBroadcast (IdString 1) 50 db_done))) 1 = Some BCancelled
   \<and> calls (snd (projr (cancelBroadcast (IdString 1) 50 db_done)))
       = [call0\<lparr>call.status := Completed\<rparr>]"
proof -
  have f: "Broadcast_findById (broadcasts db_done) (id_of (IdString 1)) = Some campaign_done"
    by (simp add: db_done_def Broadcast_findById_def campaign_done_def campaign0_def)
  have c: "broadcast.status campaign_done = BCompleted" by (simp add: campaign_done_def)
  have cs: "calls db_done = [call0\<lparr>call.status := Completed\<rparr>]" by (simp add: db_done_def)
  from cancel_completed_sets_cancelled [OF f c, of 50]
  obtain b' s' where r: "cancelBroadcast (IdString 1) 50 db_done = Inr (b', s')"
    and st: "broadcast.status b' = BCancelled"
    and cst: "campaign_status s' (id_of (IdString 1)) = Some BCancelled"
    and len: "length (calls s') = length (calls db_done)"
    and nth: "\<forall>n < length (calls db_done).
                 call.status (calls db_done ! n) \<noteq> Queued \<longrightarrow> calls s' ! n = calls db_done ! n"
    by blast
  from len nth cs have "calls s' = [call0\<lparr>call.status := Completed\<rparr>]"
    by (cases "calls s'") auto
  with r st cst f c show ?thesis by simp
qed

section \<open>The retry delay of a created campaign\<close>

text \<open>
  Nothing the engine, the webhook or the services do to a campaign changes its
  configuration.
\<close>

lemma config_kept:
  "config (updateStatus st now b) = config b"
  "config (incrementStat key b) = config b"
  "config (updateBroadcastStats b cs) = config b"
  by (simp_all add: updateStatus_keeps incrementStat_keeps updateBroadcastStats_def Let_def)

text \<open>
  Claim C9. A campaign that \<^verbatim>\<open>createBroadcast\<close> creates from data without a \<^verbatim>\<open>retryDelay\<close>
  has \<^verbatim>\<open>config.retryDelay = 30000\<close>, not the schema default 300000. Whatever has become of
  the campaign's status and statistics since, as long as the stored campaign has the
  configuration it was created with: \<^verbatim>\<open>markFailed\<close> with \<^verbatim>\<open>retry = true\<close> on one of its
  calls that is still retried (fewer than 2 attempts) sets the call's status to \<^verbatim>\<open>queued\<close>
  and its \<^verbatim>\<open>retryAfter\<close> to \<open>now + 30000\<close>.
\<close>

theorem createBroadcast_retryDelay:
  assumes "createBroadcast data userId newId = Inr b"
    and "broadcastData.retryDelay data = None"
  shows "retryDelay (config b) = 30000
         \<and> retryDelay (config b) \<noteq> schema_default_retryDelay
         \<and> (\<forall>bs c code msg now b'.
               Broadcast_findById bs (call.broadcast c) = Some b' \<and> config b' = config b
               \<and> attempts c < 2
               \<longrightarrow> call.status (markFailed code msg True now bs c) = Queued
                   \<and> retryAfter (markFailed code msg True now bs c) = Some (now + 30000))"
proof -
  from assms have cfg: "config b = make_config data"
    by (auto simp: createBroadcast_def Let_def split: option.splits if_splits)
  with assms(2) have rd: "retryDelay (config b) = 30000"
    by (simp add: make_config_def num_or_def)
  have "call.status (markFailed code msg True now bs c) = Queued
        \<and> retryAfter (markFailed code msg True now bs c) = Some (now + 30000)"
    if "Broadcast_findById bs (call.broadcast c) = Some b'" and "config b' = config b"
      and "attempts c < 2"
    for bs c code msg now b'
    using that rd
    by (simp add: markFailed_status markFailed_retryAfter retryDelay_of_def num_or_def)
  with rd show ?thesis
    by (simp add: schema_default_retryDelay_def)
qed

theorem createBroadcast_retryDelay_witness:
  "createBroadcast data0 9 1 = Inr created0
   \<and> broadcastData.retryDelay data0 = None
   \<and> retryDelay (config created0) = 30000
   \<and> Broadcast_findById [campaign0] (call.broadcast call0) = Some campaign0
   \<and> broadcast.status campaign0 = BInProgress
   \<and> config campaign0 = config created0
   \<and> attempts call0 < 2
   \<and> call.status (markFailed 500 ''boom'' True 1000 [campaign0] call0) = Queued
   \<and> retryAfter (markFailed 500 ''boom'' True 1000 [campaign0] call0) = Some 31000"
proof -
  have c: "createBroadcast data0 9 1 = Inr created0"
    by (simp add: createBroadcast_def data0_def created0_def campaign0_def make_voice_def
        make_config_def make_compliance_def str_or_def num_or_def trim_def js_space_def Let_def)
  have n: "broadcastData.retryDelay data0 = None" by (simp add: data0_def)
  have f: "Broadcast_findById [campaign0] (call.broadcast call0) = Some campaign0"
    by (simp add: Broadcast_findById_def campaign0_def call0_def)
  have g: "config campaign0 = config created0" by (simp add: created0_def)
  have a: "attempts call0 < 2" by (simp add: call0_def)
  have st: "broadcast.status campaign0 = BInProgress" by (simp add: campaign0_def)
  from createBroadcast_retryDelay [OF c n] f g a
  have "retryDelay (config created0) = 30000
        \<and> call.status (markFailed 500 ''boom'' True 1000 [campaign0] call0) = Queued
        \<and> retryAfter (markFailed 500 ''boom'' True 1000 [campaign0] call0) = Some (1000 + 30000)"
    by blast
  with c n f g a st show ?thesis by simp
qed

section \<open>Template validation\<close>

text \<open>
  Claim C10. \<^verbatim>\<open>validateTemplate\<close> returns \<open>valid = true\<close> for every template, so that
  \<^verbatim>\<open>POST /broadcast/start\<close> never answers with the 400 response
  \<^verbatim>\<open>Invalid message template\<close>.
\<close>

theorem validateTemplate_always_valid:
  "valid (validateTemplate template)
   \<and> fst (BroadcastController_startBroadcast body userId newId)
        \<noteq> Json400 ''Invalid message template''"
  by (auto simp: validateTemplate_def BroadcastController_startBroadcast_def Let_def
      split: option.splits sum.splits)

theorem validateTemplate_always_valid_witness:
  "validateTemplate ''Hi {{ name }}, {{offer}}''
     = \<lparr>valid = True, variables = [''name'', ''offer'']\<rparr>
   \<and> fst (BroadcastController_startBroadcast data0 9 1) = Json201 1 ''Diwali'' Draft 1"
proof -
  have v: "variables (validateTemplate ''Hi {{ name }}, {{offer}}'') = [''name'', ''offer'']"
    by (simp add: validateTemplate_def trim_def js_space_def)
  have c: "createBroadcast data0 9 1 = Inr created0"
    by (simp add: createBroadcast_def data0_def created0_def campaign0_def make_voice_def
        make_config_def make_compliance_def str_or_def num_or_def trim_def js_space_def Let_def)
  have d: "data0\<lparr>broadcastData.retryDelay := None\<rparr> = data0" by (simp add: data0_def)
  have "fst (BroadcastController_startBroadcast data0 9 1) = Json201 1 ''Diwali'' Draft 1"
    using validateTemplate_always_valid [of "''Hi {{name}}''" data0 9 1] c d
    by (simp add: BroadcastController_startBroadcast_def Let_def data0_def created0_def
        campaign0_def)
  with v validateTemplate_always_valid [of "''Hi {{ name }}, {{offer}}''" data0 9 1]
  show ?thesis by (cases "validateTemplate ''Hi {{ name }}, {{offer}}''") simp
qed

end
